theory Spec2Isabelle
  imports Complex_Main "HOL-Library.Monad_Syntax"
begin

section \<open>The adversarial training loop of main.py\<close>

text \<open>
  The script main.py trains a generator against a discriminator. Everything it does to
  tensors goes through the torch library, and the two networks come from modules
  (dcgan, sagan) that the script only calls. The embedding therefore has two layers:
  \<^item> a small model of the library calls the script makes (tensors that remember how they
    were computed, \<open>detach\<close>, \<open>backward\<close>, \<open>zero_grad\<close>, the optimizer step, the random
    source, \<open>save_image\<close>), with the networks, the gradient of a recorded computation,
    the Adam update and the random generator taken as parameters (record \<open>torch\<close>);
  \<^item> the script itself, statement by statement (\<open>train_batch\<close>, \<open>batches_loop\<close>,
    \<open>epoch_body\<close>, \<open>epochs_loop\<close>, \<open>main\<close>).
  Scalars are mathematical reals: NaN is not represented, and rounding to 32-bit floats
  only where a definition says so (\<open>float32\<close>, \<open>bce_with_logits_f32\<close>).
  A raised exception is the value \<open>None\<close>.
\<close>

subsection \<open>Tensors and the computation they record\<close>

type_synonym image = "real list"
type_synonym latent = "real list"

datatype net = NetD | NetG

text \<open>The elementary operations the script applies to discriminator scores.\<close>

datatype unop =
    Rsub real          \<comment> \<open>\<open>c - x\<close>, elementwise\<close>
  | Radd real          \<comment> \<open>\<open>c + x\<close>, elementwise\<close>
  | Relu               \<comment> \<open>\<open>nn.ReLU()\<close>\<close>
  | Mean               \<comment> \<open>\<open>.mean()\<close>\<close>
  | Neg                \<comment> \<open>unary minus\<close>
  | Bce "real list"    \<comment> \<open>\<open>nn.BCEWithLogitsLoss()\<close> against the given targets\<close>

text \<open>
  What autograd records for a tensor: \<open>Leaf\<close> for a tensor with no history (input data, noise,
  labels, a detached tensor), \<open>Call n p x g\<close> for the output of network \<open>n\<close> run with
  parameters \<open>p\<close> on input \<open>x\<close> whose own history is \<open>g\<close>.
\<close>

datatype 'p graph =
    Leaf
  | Call net 'p "real list list" "'p graph"
  | Unary unop "'p graph"
  | Add "'p graph" "'p graph"

record ('v, 'p) tensor =
  val :: 'v
  grad_fn :: "'p graph"

text \<open>Whether the parameters of network \<open>n\<close> are reachable from a recorded computation.\<close>

fun reaches :: "net \<Rightarrow> 'p graph \<Rightarrow> bool" where
  "reaches n Leaf = False"
| "reaches n (Call m p x g) = (m = n \<or> reaches n g)"
| "reaches n (Unary f g) = reaches n g"
| "reaches n (Add g h) = (reaches n g \<or> reaches n h)"

definition leaf :: "'v \<Rightarrow> ('v, 'p) tensor" where
  "leaf v = \<lparr>val = v, grad_fn = Leaf\<rparr>"

definition detach :: "('v, 'p) tensor \<Rightarrow> ('v, 'p) tensor" where
  "detach t = \<lparr>val = val t, grad_fn = Leaf\<rparr>"

subsection \<open>Score arithmetic\<close>

definition relu :: "real \<Rightarrow> real" where
  "relu x = max 0 x"

text \<open>
  The arithmetic mean. For the empty list torch gives NaN and HOL gives 0; the data
  loader never yields an empty batch.
\<close>

definition mean :: "real list \<Rightarrow> real" where
  "mean xs = sum_list xs / real (length xs)"

text \<open>
  One element of \<open>BCEWithLogitsLoss\<close> at logit \<open>x\<close> and target \<open>y\<close>, in the form the
  library evaluates: the largest exponent is taken out before the logarithm.
\<close>

definition bce_with_logits :: "real \<Rightarrow> real \<Rightarrow> real" where
  "bce_with_logits x y =
     (let max_val = max 0 (- x)
      in (1 - y) * x + max_val + ln (exp (- max_val) + exp (- x - max_val)))"

text \<open>
  The script's tensors are 32-bit floats (\<open>dtype=real_cpu.dtype\<close>). \<open>float32 x\<close> is the
  binary32 value nearest to \<open>x\<close>, ties to the even significand: 24 significant bits,
  subnormal numbers below \<open>2 powr - 126\<close> in steps of \<open>2 powr - 149\<close>. The exponent has no
  upper bound here, so no value overflows to infinity.
\<close>

definition round_half_even :: "real \<Rightarrow> int" where
  "round_half_even u =
     (let n = \<lfloor>u\<rfloor>; d = u - of_int n
      in if d < 1 / 2 then n else if 1 / 2 < d then n + 1 else if even n then n else n + 1)"

definition float32 :: "real \<Rightarrow> real" where
  "float32 x =
     (if x = 0 then 0
      else let e = max (- 126) \<lfloor>log 2 \<bar>x\<bar>\<rfloor>; ulp = 2 powr (of_int e - 23)
           in ulp * of_int (round_half_even (x / ulp)))"


definition rsub :: "real \<Rightarrow> (real list, 'p) tensor \<Rightarrow> (real list, 'p) tensor" where
  "rsub c t = \<lparr>val = map (\<lambda>x. c - x) (val t), grad_fn = Unary (Rsub c) (grad_fn t)\<rparr>"

definition radd :: "real \<Rightarrow> (real list, 'p) tensor \<Rightarrow> (real list, 'p) tensor" where
  "radd c t = \<lparr>val = map (\<lambda>x. c + x) (val t), grad_fn = Unary (Radd c) (grad_fn t)\<rparr>"

definition ReLU :: "(real list, 'p) tensor \<Rightarrow> (real list, 'p) tensor" where
  "ReLU t = \<lparr>val = map relu (val t), grad_fn = Unary Relu (grad_fn t)\<rparr>"

definition mean_t :: "(real list, 'p) tensor \<Rightarrow> (real, 'p) tensor" where
  "mean_t t = \<lparr>val = mean (val t), grad_fn = Unary Mean (grad_fn t)\<rparr>"

definition neg :: "(real, 'p) tensor \<Rightarrow> (real, 'p) tensor" where
  "neg t = \<lparr>val = - val t, grad_fn = Unary Neg (grad_fn t)\<rparr>"

definition add :: "(real, 'p) tensor \<Rightarrow> (real, 'p) tensor \<Rightarrow> (real, 'p) tensor" where
  "add a b = \<lparr>val = val a + val b, grad_fn = Add (grad_fn a) (grad_fn b)\<rparr>"

text \<open>
  \<open>criterion = nn.BCEWithLogitsLoss()\<close>: the mean of the elementwise loss. The library
  raises \<open>ValueError\<close> when target and input differ in size.
\<close>

definition criterion ::
  "(real list, 'p) tensor \<Rightarrow> real list \<Rightarrow> (real, 'p) tensor option" where
  "criterion output label =
     (if length (val output) \<noteq> length label then None
      else Some \<lparr>val = mean (map2 bce_with_logits (val output) label),
                 grad_fn = Unary (Bce label) (grad_fn output)\<rparr>)"

text \<open>\<open>torch.where(output > 0.5, 1., 0.).mean().item()\<close>\<close>

definition accuracy :: "(real list, 'p) tensor \<Rightarrow> real" where
  "accuracy output = mean (map (\<lambda>s. if s > 0.5 then 1 else 0) (val output))"

text \<open>\<open>torch.full((n,), v)\<close> and \<open>label.fill_(v)\<close>, which keeps the shape.\<close>

definition full :: "nat \<Rightarrow> real \<Rightarrow> real list" where
  "full n v = replicate n v"

definition fill :: "real list \<Rightarrow> real \<Rightarrow> real list" where
  "fill label v = replicate (length label) v"

subsection \<open>The library and the networks, as parameters\<close>

text \<open>
  \<open>netD_forward p x\<close> is the score vector of the discriminator with parameters \<open>p\<close> on the
  batch \<open>x\<close> (for the self-attention network, the first component of the triple it
  returns; the script drops the two attention maps). \<open>netG_forward\<close> is the same for
  the generator. \<open>autograd n g\<close> is the gradient, with respect to the parameters of
  network \<open>n\<close>, of the scalar whose history is \<open>g\<close>. \<open>adam\<close> is one update of
  \<open>optim.Adam\<close> with the given learning rate and betas. \<open>randn\<close> draws a batch of latent
  vectors and advances the generator state. \<open>dataloader\<close> yields the batches of one
  epoch. Only learnable parameters are represented, not module buffers.
\<close>

record ('p, 'g, 'o, 'r) torch =
  netD_forward :: "'p \<Rightarrow> image list \<Rightarrow> real list"
  netG_forward :: "'p \<Rightarrow> latent list \<Rightarrow> image list"
  autograd :: "net \<Rightarrow> 'p graph \<Rightarrow> 'g"
  adam :: "real \<Rightarrow> real \<times> real \<Rightarrow> 'o \<Rightarrow> 'p \<Rightarrow> 'g \<Rightarrow> 'p \<times> 'o"
  adam_init :: "'o"
  randn :: "nat \<Rightarrow> nat \<Rightarrow> 'r \<Rightarrow> latent list \<times> 'r"
  dataloader :: "'r \<Rightarrow> image list list \<times> 'r"

record log_line =
  log_epoch :: nat
  log_niter :: int
  log_i :: nat
  log_len :: nat
  log_Loss_D :: real
  log_Loss_G :: real
  log_D_x :: real
  log_D_G_z1 :: real
  log_D_G_z2 :: real

datatype 'p artifact =
    Picture "image list" bool    \<comment> \<open>the tensor given to \<open>save_image\<close> and its \<open>normalize\<close> flag\<close>
  | Weights 'p                   \<comment> \<open>a \<open>state_dict\<close>\<close>

text \<open>The library calls of the script, in the order they happen.\<close>

datatype 'p call =
    Zero_grad net
  | Forward net "real list list"
  | Randn nat nat
  | Backward real "'p graph"
  | Step net
  | Save_image "image list" string bool
  | Save 'p string
  | Info log_line
  | Next_epoch

record ('p, 'g, 'o, 'r) state =
  params :: "net \<Rightarrow> 'p"
  grads :: "net \<Rightarrow> 'g"
  moments :: "net \<Rightarrow> 'o"
  rng :: 'r
  fixed_noise :: "latent list"
  files :: "string \<rightharpoonup> 'p artifact"
  calls :: "'p call list"

definition called ::
  "'p call \<Rightarrow> ('p, 'g, 'o, 'r) state \<Rightarrow> ('p, 'g, 'o, 'r) state" where
  "called c st = st\<lparr>calls := calls st @ [c]\<rparr>"

text \<open>\<open>net.zero_grad()\<close>: a cleared gradient is the zero of the gradient type.\<close>

definition zero_grad ::
  "net \<Rightarrow> ('p, 'g::comm_monoid_add, 'o, 'r) state \<Rightarrow> ('p, 'g, 'o, 'r) state" where
  "zero_grad n st = called (Zero_grad n) (st\<lparr>grads := (grads st)(n := 0)\<rparr>)"

definition netD ::
  "('p, 'g, 'o, 'r) torch \<Rightarrow> (image list, 'p) tensor \<Rightarrow> ('p, 'g, 'o, 'r) state
   \<Rightarrow> (real list, 'p) tensor \<times> ('p, 'g, 'o, 'r) state" where
  "netD env x st =
     (\<lparr>val = netD_forward env (params st NetD) (val x),
       grad_fn = Call NetD (params st NetD) (val x) (grad_fn x)\<rparr>,
      called (Forward NetD (val x)) st)"

definition netG ::
  "('p, 'g, 'o, 'r) torch \<Rightarrow> (latent list, 'p) tensor \<Rightarrow> ('p, 'g, 'o, 'r) state
   \<Rightarrow> (image list, 'p) tensor \<times> ('p, 'g, 'o, 'r) state" where
  "netG env z st =
     (\<lparr>val = netG_forward env (params st NetG) (val z),
       grad_fn = Call NetG (params st NetG) (val z) (grad_fn z)\<rparr>,
      called (Forward NetG (val z)) st)"

definition torch_randn ::
  "('p, 'g, 'o, 'r) torch \<Rightarrow> nat \<Rightarrow> nat \<Rightarrow> ('p, 'g, 'o, 'r) state
   \<Rightarrow> (latent list, 'p) tensor \<times> ('p, 'g, 'o, 'r) state" where
  "torch_randn env n d st =
     (let (z, r) = randn env n d (rng st)
      in (leaf z, called (Randn n d) (st\<lparr>rng := r\<rparr>)))"

text \<open>
  \<open>t.backward()\<close>: the gradient of \<open>t\<close> is added to the gradient of every network whose
  parameters its history reaches, and to no other. The library raises when the history
  reaches no parameter at all.
\<close>

definition backward ::
  "('p, 'g::comm_monoid_add, 'o, 'r) torch \<Rightarrow> (real, 'p) tensor \<Rightarrow> ('p, 'g, 'o, 'r) state
   \<Rightarrow> ('p, 'g, 'o, 'r) state option" where
  "backward env t st =
     (if \<not> reaches NetD (grad_fn t) \<and> \<not> reaches NetG (grad_fn t) then None
      else Some (called (Backward (val t) (grad_fn t))
        (st\<lparr>grads := (\<lambda>n. if reaches n (grad_fn t)
                             then grads st n + autograd env n (grad_fn t)
                             else grads st n)\<rparr>)))"

text \<open>
  \<open>optimizerD = optim.Adam(netD.parameters(), lr=0.0004, betas=(0.0, 0.9))\<close> and
  \<open>optimizerG = optim.Adam(netG.parameters(), lr=0.0001, betas=(0.0, 0.9))\<close>.
\<close>

fun lr :: "net \<Rightarrow> real" where
  "lr NetD = 4 / 10000"
| "lr NetG = 1 / 10000"

definition betas :: "real \<times> real" where
  "betas = (0, 9 / 10)"

definition optimizer_step ::
  "('p, 'g, 'o, 'r) torch \<Rightarrow> net \<Rightarrow> ('p, 'g, 'o, 'r) state \<Rightarrow> ('p, 'g, 'o, 'r) state" where
  "optimizer_step env n st =
     (let (p, m) = adam env (lr n) betas (moments st n) (params st n) (grads st n)
      in called (Step n) (st\<lparr>params := (params st)(n := p), moments := (moments st)(n := m)\<rparr>))"

definition save_image ::
  "image list \<Rightarrow> string \<Rightarrow> bool \<Rightarrow> ('p, 'g, 'o, 'r) state \<Rightarrow> ('p, 'g, 'o, 'r) state" where
  "save_image t name nrm st =
     called (Save_image t name nrm) (st\<lparr>files := (files st)(name \<mapsto> Picture t nrm)\<rparr>)"

definition torch_save ::
  "'p \<Rightarrow> string \<Rightarrow> ('p, 'g, 'o, 'r) state \<Rightarrow> ('p, 'g, 'o, 'r) state" where
  "torch_save p name st = called (Save p name) (st\<lparr>files := (files st)(name \<mapsto> Weights p)\<rparr>)"

subsection \<open>Formatting of file names\<close>

text \<open>\<open>'%d' % n\<close> and \<open>'%03d' % n\<close> for a non-negative \<open>n\<close>.\<close>

definition digit :: "nat \<Rightarrow> char" where
  "digit d = char_of (48 + d)"

fun fmt_d :: "nat \<Rightarrow> string" where
  "fmt_d n = (if n < 10 then [digit n] else fmt_d (n div 10) @ [digit (n mod 10)])"

declare fmt_d.simps [simp del]

definition fmt_03d :: "nat \<Rightarrow> string" where
  "fmt_03d n = replicate (3 - length (fmt_d n)) (CHR ''0'') @ fmt_d n"

subsection \<open>The script\<close>

text \<open>The command-line options the loop reads.\<close>

record opt =
  nz :: nat
  niter :: int
  outf :: string
  sagan :: bool

definition real_label :: real where
  "real_label = 1"

definition fake_label :: real where
  "fake_label = 0"

text \<open>
  The body of the inner loop is lines 128 to 183. It is cut where the script's own
  comments cut it; each part returns the variables that later lines read. The two label
  values are arguments; \<open>batches_loop\<close> passes the script's constants.
\<close>

text \<open>Lines 128 to 141, ``train with real''.\<close>

definition train_with_real ::
  "('p, 'g::comm_monoid_add, 'o, 'r) torch \<Rightarrow> opt \<Rightarrow> real \<Rightarrow> image list
   \<Rightarrow> ('p, 'g, 'o, 'r) state
   \<Rightarrow> ((image list, 'p) tensor \<times> nat \<times> real list \<times> (real, 'p) tensor \<times> real
        \<times> ('p, 'g, 'o, 'r) state) option" where
  "train_with_real env opt real_lbl data st0 = do {
     let st = zero_grad NetD st0;
     let real_cpu = leaf data;
     let batch_size = length data;
     let label = full batch_size real_lbl;
     let (output, st) = netD env real_cpu st;
     errD_real \<leftarrow> (if sagan opt then Some (mean_t (ReLU (rsub 1 output)))
                   else criterion output label);
     st \<leftarrow> backward env errD_real st;
     let D_x = accuracy output;
     Some (real_cpu, batch_size, label, errD_real, D_x, st)
   }"

text \<open>Lines 144 to 156, ``train with fake''.\<close>

definition train_with_fake ::
  "('p, 'g::comm_monoid_add, 'o, 'r) torch \<Rightarrow> opt \<Rightarrow> real \<Rightarrow> nat \<Rightarrow> real list
   \<Rightarrow> ('p, 'g, 'o, 'r) state
   \<Rightarrow> ((image list, 'p) tensor \<times> real list \<times> (real, 'p) tensor \<times> real
        \<times> ('p, 'g, 'o, 'r) state) option" where
  "train_with_fake env opt fake_lbl batch_size label0 st0 = do {
     let (noise, st) = torch_randn env batch_size (nz opt) st0;
     let (fake, st) = netG env noise st;
     let label = fill label0 fake_lbl;
     let (output, st) = netD env (detach fake) st;
     errD_fake \<leftarrow> (if sagan opt then Some (mean_t (ReLU (radd 1 output)))
                   else criterion output label);
     st \<leftarrow> backward env errD_fake st;
     let D_G_z1 = accuracy output;
     Some (fake, label, errD_fake, D_G_z1, st)
   }"

text \<open>Lines 163 to 173, ``(2) Update G network''.\<close>

definition update_G ::
  "('p, 'g::comm_monoid_add, 'o, 'r) torch \<Rightarrow> opt \<Rightarrow> real \<Rightarrow> real list
   \<Rightarrow> (image list, 'p) tensor \<Rightarrow> ('p, 'g, 'o, 'r) state
   \<Rightarrow> ((real, 'p) tensor \<times> real \<times> ('p, 'g, 'o, 'r) state) option" where
  "update_G env opt real_lbl label0 fake st0 = do {
     let st = zero_grad NetG st0;
     let label = fill label0 real_lbl;
     let (output, st) = netD env fake st;
     errG \<leftarrow> (if sagan opt then Some (neg (mean_t output))
              else criterion output label);
     st \<leftarrow> backward env errG st;
     let D_G_z2 = accuracy output;
     Some (errG, D_G_z2, optimizer_step env NetG st)
   }"

text \<open>Lines 178 to 183, the two pictures written when \<open>i % 100 == 0\<close>.\<close>

definition snapshot ::
  "('p, 'g, 'o, 'r) torch \<Rightarrow> opt \<Rightarrow> nat \<Rightarrow> nat \<Rightarrow> (image list, 'p) tensor
   \<Rightarrow> ('p, 'g, 'o, 'r) state \<Rightarrow> ('p, 'g, 'o, 'r) state" where
  "snapshot env opt epoch i real_cpu st0 =
     (if i mod 100 = 0 then
        (let st = save_image (take 64 (val real_cpu)) (outf opt @ ''/real_samples.png'') True st0;
             (fake, st) = netG env (leaf (fixed_noise st)) st
         in save_image (val (detach fake))
              (outf opt @ ''/fake_samples_epoch_'' @ fmt_03d epoch @ ''.png'') True st)
      else st0)"

text \<open>
  The whole body for batch \<open>i\<close> of epoch \<open>epoch\<close>; \<open>len\<close> is \<open>len(dataloader)\<close>. Lines 157
  and 158 (the reported discriminator loss and the discriminator's optimizer step) and
  the log line of lines 175 to 177 sit between the parts.
\<close>

definition train_batch ::
  "('p, 'g::comm_monoid_add, 'o, 'r) torch \<Rightarrow> opt \<Rightarrow> real \<Rightarrow> real \<Rightarrow> nat \<Rightarrow> nat
   \<Rightarrow> nat \<times> image list \<Rightarrow> ('p, 'g, 'o, 'r) state \<Rightarrow> ('p, 'g, 'o, 'r) state option" where
  "train_batch env opt real_lbl fake_lbl epoch len idata st0 = do {
     let (i, data) = idata;
     (real_cpu, batch_size, label, errD_real, D_x, st) \<leftarrow> train_with_real env opt real_lbl data st0;
     (fake, label, errD_fake, D_G_z1, st) \<leftarrow> train_with_fake env opt fake_lbl batch_size label st;
     let errD = add errD_real errD_fake;
     let st = optimizer_step env NetD st;
     (errG, D_G_z2, st) \<leftarrow> update_G env opt real_lbl label fake st;
     let st = called (Info \<lparr>log_epoch = epoch, log_niter = niter opt, log_i = i, log_len = len,
                             log_Loss_D = val errD, log_Loss_G = val errG, log_D_x = D_x,
                             log_D_G_z1 = D_G_z1, log_D_G_z2 = D_G_z2\<rparr>) st;
     Some (snapshot env opt epoch i real_cpu st)
   }"

text \<open>\<open>for i, data in enumerate(dataloader, 0)\<close>\<close>

fun batches_loop ::
  "('p, 'g::comm_monoid_add, 'o, 'r) torch \<Rightarrow> opt \<Rightarrow> nat \<Rightarrow> nat
   \<Rightarrow> (nat \<times> image list) list \<Rightarrow> ('p, 'g, 'o, 'r) state \<Rightarrow> ('p, 'g, 'o, 'r) state option" where
  "batches_loop env opt epoch len [] st = Some st"
| "batches_loop env opt epoch len (idata # rest) st =
     (case train_batch env opt real_label fake_label epoch len idata st of
        None \<Rightarrow> None
      | Some st' \<Rightarrow> batches_loop env opt epoch len rest st')"

text \<open>One epoch: the inner loop, then the two checkpoints (lines 185 to 187).\<close>

definition epoch_body ::
  "('p, 'g::comm_monoid_add, 'o, 'r) torch \<Rightarrow> opt \<Rightarrow> nat \<Rightarrow> ('p, 'g, 'o, 'r) state
   \<Rightarrow> ('p, 'g, 'o, 'r) state option" where
  "epoch_body env opt epoch st0 = do {
     let (batches, r) = dataloader env (rng st0);
     let st = called Next_epoch (st0\<lparr>rng := r\<rparr>);
     st \<leftarrow> batches_loop env opt epoch (length batches) (enumerate 0 batches) st;
     let st = torch_save (params st NetG) (outf opt @ ''/netG_epoch_'' @ fmt_d epoch @ ''.pth'') st;
     Some (torch_save (params st NetD) (outf opt @ ''/netD_epoch_'' @ fmt_d epoch @ ''.pth'') st)
   }"

text \<open>\<open>for epoch in range(opt.niter)\<close>\<close>

fun epochs_loop ::
  "('p, 'g::comm_monoid_add, 'o, 'r) torch \<Rightarrow> opt \<Rightarrow> nat list
   \<Rightarrow> ('p, 'g, 'o, 'r) state \<Rightarrow> ('p, 'g, 'o, 'r) state option" where
  "epochs_loop env opt [] st = Some st"
| "epochs_loop env opt (epoch # rest) st =
     (case epoch_body env opt epoch st of
        None \<Rightarrow> None
      | Some st' \<Rightarrow> epochs_loop env opt rest st')"

text \<open>
  Lines 112 to 187, from a state in which both networks are initialised: the fixed noise
  is drawn, the two optimizers are created, and the epochs run. An \<open>niter\<close> that is not
  positive gives the empty range.
\<close>

definition main ::
  "('p, 'g::comm_monoid_add, 'o, 'r) torch \<Rightarrow> opt \<Rightarrow> ('p, 'g, 'o, 'r) state
   \<Rightarrow> ('p, 'g, 'o, 'r) state option" where
  "main env opt st0 =
     (let (noise, st) = torch_randn env 64 (nz opt) st0;
          st = st\<lparr>fixed_noise := val noise, moments := (\<lambda>n. adam_init env)\<rparr>
      in epochs_loop env opt [0..<nat (niter opt)] st)"

subsection \<open>Reading a trace\<close>

text \<open>
  The network call a loss was computed from: the network, the parameters it ran with,
  its input and the input's history, found under the elementwise operations and the
  reduction. A sum of two losses has no single source.
\<close>

fun loss_source :: "'p graph \<Rightarrow> (net \<times> 'p \<times> real list list \<times> 'p graph) option" where
  "loss_source (Unary f g) = loss_source g"
| "loss_source (Call n p x g) = Some (n, p, x, g)"
| "loss_source Leaf = None"
| "loss_source (Add g h) = None"

text \<open>The calls a step added to the trace.\<close>

definition new_calls ::
  "('p, 'g, 'o, 'r) state \<Rightarrow> ('p, 'g, 'o, 'r) state \<Rightarrow> 'p call list" where
  "new_calls st st' = drop (length (calls st)) (calls st')"

text \<open>The inputs of the forward passes of network \<open>n\<close>, in order.\<close>

fun forwards :: "net \<Rightarrow> 'p call list \<Rightarrow> real list list list" where
  "forwards n [] = []"
| "forwards n (Forward m x # cs) = (if m = n then x # forwards n cs else forwards n cs)"
| "forwards n (c # cs) = forwards n cs"

text \<open>The shapes of the random draws, in order.\<close>

fun draws :: "'p call list \<Rightarrow> (nat \<times> nat) list" where
  "draws [] = []"
| "draws (Randn n d # cs) = (n, d) # draws cs"
| "draws (c # cs) = draws cs"

text \<open>The losses that were differentiated, with their histories, in order.\<close>

fun backwards :: "'p call list \<Rightarrow> (real \<times> 'p graph) list" where
  "backwards [] = []"
| "backwards (Backward l g # cs) = (l, g) # backwards cs"
| "backwards (c # cs) = backwards cs"

text \<open>The pictures written: file name, tensor and \<open>normalize\<close> flag, in order.\<close>

fun pictures :: "'p call list \<Rightarrow> (string \<times> image list \<times> bool) list" where
  "pictures [] = []"
| "pictures (Save_image t name nrm # cs) = (name, t, nrm) # pictures cs"
| "pictures (c # cs) = pictures cs"

text \<open>The log lines, in order.\<close>

fun infos :: "'p call list \<Rightarrow> log_line list" where
  "infos [] = []"
| "infos (Info l # cs) = l # infos cs"
| "infos (c # cs) = infos cs"

text \<open>
  The inputs of those generator passes whose output is written as a picture by the very
  next call: the latent vectors the saved samples were generated from.
\<close>

fun generated_from :: "'p call list \<Rightarrow> latent list list" where
  "generated_from [] = []"
| "generated_from (Forward n z # cs) =
     (case cs of
        Save_image t name nrm # rest \<Rightarrow>
          (if n = NetG then z # generated_from cs else generated_from cs)
      | _ \<Rightarrow> generated_from cs)"
| "generated_from (c # cs) = generated_from cs"

text \<open>Whether a call writes a picture.\<close>

fun is_picture :: "'p call \<Rightarrow> bool" where
  "is_picture (Save_image t name nrm) = True"
| "is_picture c = False"

subsection \<open>The textbook cross entropy\<close>

text \<open>
  The loss \<open>BCE(p, y)\<close> of a probability \<open>p\<close> against a target \<open>y\<close>, and the logistic
  function that turns a raw score into a probability. The script never computes either:
  they state what \<open>bce_with_logits\<close> is expected to equal.
\<close>

definition sigmoid :: "real \<Rightarrow> real" where
  "sigmoid x = 1 / (1 + exp (- x))"

definition BCE :: "real \<Rightarrow> real \<Rightarrow> real" where
  "BCE p y = - (y * ln p + (1 - y) * ln (1 - p))"

subsection \<open>A small instance\<close>

text \<open>
  A discriminator that scores an image by its scaled sum, a generator that shifts the
  latent vector, a counter as random source and a data set of one batch of two one-pixel
  images. Gradients are symbolic: the gradient type is the integers and every backward
  pass contributes one.
\<close>

definition example_torch :: "(real, int, unit, nat) torch" where
  "example_torch =
     \<lparr>netD_forward = (\<lambda>p x. map (\<lambda>im. p * sum_list im) x),
      netG_forward = (\<lambda>p z. map (map (\<lambda>v. p + v)) z),
      autograd = (\<lambda>n g. 1),
      adam = (\<lambda>l b m p g. (p - l * of_int g, m)),
      adam_init = (),
      randn = (\<lambda>n d r. (replicate n (replicate d (of_nat r)), Suc r)),
      dataloader = (\<lambda>r. ([[[1], [2]]], r))\<rparr>"

definition example_opt :: "bool \<Rightarrow> int \<Rightarrow> opt" where
  "example_opt sa n = \<lparr>nz = 1, niter = n, outf = ''out'', sagan = sa\<rparr>"

definition example_state :: "(real, int, unit, nat) state" where
  "example_state =
     \<lparr>params = (\<lambda>n. 1), grads = (\<lambda>n. 5), moments = (\<lambda>n. ()), rng = 0,
      fixed_noise = [], files = Map.empty, calls = []\<rparr>"

section \<open>Properties\<close>

subsection \<open>What each part of the loop body does\<close>

lemma tensor_simps [simp]:
  "grad_fn (leaf v) = Leaf" "val (leaf v) = v"
  "grad_fn (detach t) = Leaf" "val (detach t) = val t"
  by (simp_all add: leaf_def detach_def)

lemma train_with_real_effect:
  assumes "train_with_real env opt real_lbl data st
             = Some (real_cpu, batch_size, label, errD_real, D_x, st')"
  shows "real_cpu = leaf data" "batch_size = length data"
    "label = replicate (length data) real_lbl"
    "loss_source (grad_fn errD_real) = Some (NetD, params st NetD, data, Leaf)"
    "D_x = mean (map (\<lambda>s. if s > 0.5 then 1 else 0) (netD_forward env (params st NetD) data))"
    "params st' = params st" "moments st' = moments st" "rng st' = rng st"
    "fixed_noise st' = fixed_noise st" "files st' = files st"
    "calls st' = calls st @
       [Zero_grad NetD, Forward NetD data, Backward (val errD_real) (grad_fn errD_real)]"
    "grads st' NetD = autograd env NetD (grad_fn errD_real)"
    "grads st' NetG = grads st NetG"
  using assms
  by (auto simp: train_with_real_def zero_grad_def netD_def called_def criterion_def full_def
        accuracy_def mean_t_def ReLU_def rsub_def backward_def Let_def
      split: prod.splits if_splits Option.bind_splits)

lemma train_with_fake_effect:
  assumes "train_with_fake env opt fake_lbl batch_size label0 st
             = Some (fake, label, errD_fake, D_G_z1, st')"
  shows "val fake = netG_forward env (params st NetG) (fst (randn env batch_size (nz opt) (rng st)))"
    "grad_fn fake = Call NetG (params st NetG) (fst (randn env batch_size (nz opt) (rng st))) Leaf"
    "label = replicate (length label0) fake_lbl"
    "loss_source (grad_fn errD_fake) = Some (NetD, params st NetD, val fake, Leaf)"
    "D_G_z1 = mean (map (\<lambda>s. if s > 0.5 then 1 else 0)
                 (netD_forward env (params st NetD) (val fake)))"
    "params st' = params st" "moments st' = moments st"
    "rng st' = snd (randn env batch_size (nz opt) (rng st))"
    "fixed_noise st' = fixed_noise st" "files st' = files st"
    "calls st' = calls st @ [Randn batch_size (nz opt),
        Forward NetG (fst (randn env batch_size (nz opt) (rng st))),
        Forward NetD (val fake), Backward (val errD_fake) (grad_fn errD_fake)]"
    "grads st' NetD = grads st NetD + autograd env NetD (grad_fn errD_fake)"
    "grads st' NetG = grads st NetG"
  using assms
  by (auto simp: train_with_fake_def torch_randn_def netG_def netD_def called_def criterion_def
        fill_def accuracy_def mean_t_def ReLU_def radd_def backward_def Let_def
      split: prod.splits if_splits Option.bind_splits)

lemma optimizer_step_effect:
  "params (optimizer_step env n st) n
     = fst (adam env (lr n) betas (moments st n) (params st n) (grads st n))"
  "moments (optimizer_step env n st) n
     = snd (adam env (lr n) betas (moments st n) (params st n) (grads st n))"
  "m \<noteq> n \<Longrightarrow> params (optimizer_step env n st) m = params st m"
  "m \<noteq> n \<Longrightarrow> moments (optimizer_step env n st) m = moments st m"
  "grads (optimizer_step env n st) = grads st"
  "rng (optimizer_step env n st) = rng st"
  "fixed_noise (optimizer_step env n st) = fixed_noise st"
  "files (optimizer_step env n st) = files st"
  "calls (optimizer_step env n st) = calls st @ [Step n]"
  by (simp_all add: optimizer_step_def called_def split: prod.splits)

lemma update_G_effect:
  assumes "update_G env opt real_lbl label0 fake st = Some (errG, D_G_z2, st')"
  shows "loss_source (grad_fn errG) = Some (NetD, params st NetD, val fake, grad_fn fake)"
    "D_G_z2 = mean (map (\<lambda>s. if s > 0.5 then 1 else 0)
                 (netD_forward env (params st NetD) (val fake)))"
    "params st' NetD = params st NetD" "moments st' NetD = moments st NetD"
    "params st' NetG = fst (adam env (lr NetG) betas (moments st NetG) (params st NetG)
        (if reaches NetG (grad_fn fake) then autograd env NetG (grad_fn errG) else 0))"
    "moments st' NetG = snd (adam env (lr NetG) betas (moments st NetG) (params st NetG)
        (if reaches NetG (grad_fn fake) then autograd env NetG (grad_fn errG) else 0))"
    "rng st' = rng st" "fixed_noise st' = fixed_noise st" "files st' = files st"
    "calls st' = calls st @ [Zero_grad NetG, Forward NetD (val fake),
        Backward (val errG) (grad_fn errG), Step NetG]"
    "grads st' NetD = grads st NetD + autograd env NetD (grad_fn errG)"
    "grads st' NetG = (if reaches NetG (grad_fn fake) then autograd env NetG (grad_fn errG) else 0)"
  using assms
  by (auto simp: update_G_def zero_grad_def netD_def called_def criterion_def optimizer_step_def
        fill_def accuracy_def mean_t_def neg_def backward_def Let_def
      split: prod.splits if_splits Option.bind_splits)

lemma snapshot_effect:
  "params (snapshot env opt epoch i real_cpu st) = params st"
  "moments (snapshot env opt epoch i real_cpu st) = moments st"
  "grads (snapshot env opt epoch i real_cpu st) = grads st"
  "rng (snapshot env opt epoch i real_cpu st) = rng st"
  "fixed_noise (snapshot env opt epoch i real_cpu st) = fixed_noise st"
  "calls (snapshot env opt epoch i real_cpu st) = calls st @
     (if i mod 100 = 0 then
        [Save_image (take 64 (val real_cpu)) (outf opt @ ''/real_samples.png'') True,
         Forward NetG (fixed_noise st),
         Save_image (netG_forward env (params st NetG) (fixed_noise st))
           (outf opt @ ''/fake_samples_epoch_'' @ fmt_03d epoch @ ''.png'') True]
      else [])"
  by (simp_all add: snapshot_def save_image_def netG_def called_def Let_def split: prod.splits)

lemma train_batch_cases:
  assumes "train_batch env opt rl fl epoch len (i, data) st = Some st'"
  obtains real_cpu bs label1 errD_real D_x st1 fake label2 errD_fake D_G_z1 st2
    errG D_G_z2 st3 where
    "train_with_real env opt rl data st = Some (real_cpu, bs, label1, errD_real, D_x, st1)"
    "train_with_fake env opt fl bs label1 st1 = Some (fake, label2, errD_fake, D_G_z1, st2)"
    "update_G env opt rl label2 fake (optimizer_step env NetD st2) = Some (errG, D_G_z2, st3)"
    "st' = snapshot env opt epoch i real_cpu
       (called (Info \<lparr>log_epoch = epoch, log_niter = niter opt, log_i = i, log_len = len,
                       log_Loss_D = val errD_real + val errD_fake, log_Loss_G = val errG,
                       log_D_x = D_x, log_D_G_z1 = D_G_z1, log_D_G_z2 = D_G_z2\<rparr>) st3)"
  using assms
  by (auto simp: train_batch_def add_def Let_def split: prod.splits Option.bind_splits)

lemma detached_source_misses_generator:
  "loss_source g = Some (NetD, p, x, Leaf) \<Longrightarrow> \<not> reaches NetG g"
  by (induction g) auto

subsection \<open>Gradient isolation\<close>

text \<open>
  Claim C1. In the discriminator's fake phase the loss is computed on a detached copy of
  the generator output: the history of the loss stops at the discriminator call, whose
  input has no history, although the generator output itself is attached to the
  generator. So the backward pass of that loss adds to the discriminator's gradient and
  leaves the generator's gradient exactly as it was before the phase, whatever value it
  had.
\<close>

theorem fake_phase_gradient_isolation:
  assumes "train_with_fake env opt fake_lbl batch_size label0 st
             = Some (fake, label, errD_fake, D_G_z1, st')"
  shows "grads st' NetG = grads st NetG
       \<and> \<not> reaches NetG (grad_fn errD_fake)
       \<and> reaches NetG (grad_fn fake)
       \<and> loss_source (grad_fn errD_fake) = Some (NetD, params st NetD, val fake, Leaf)
       \<and> grads st' NetD = grads st NetD + autograd env NetD (grad_fn errD_fake)"
proof -
  have src: "loss_source (grad_fn errD_fake) = Some (NetD, params st NetD, val fake, Leaf)"
    using train_with_fake_effect(4) [OF assms] .
  then have "\<not> reaches NetG (grad_fn errD_fake)"
    by (rule detached_source_misses_generator)
  moreover have "reaches NetG (grad_fn fake)"
    using train_with_fake_effect(2) [OF assms] by simp
  ultimately show ?thesis
    using src train_with_fake_effect(12,13) [OF assms] by simp
qed

theorem fake_phase_gradient_isolation_witness:
  "\<exists>fake label errD_fake D_G_z1 st'.
     train_with_fake example_torch (example_opt True 1) fake_label 2 [1, 1] example_state
       = Some (fake, label, errD_fake, D_G_z1, st')
     \<and> grads st' NetG = 5 \<and> grads st' NetD = 6 \<and> \<not> reaches NetG (grad_fn errD_fake)"
proof -
  obtain fake label errD_fake D_G_z1 st' where run:
    "train_with_fake example_torch (example_opt True 1) fake_label 2 [1, 1] example_state
       = Some (fake, label, errD_fake, D_G_z1, st')"
    by (simp add: train_with_fake_def example_torch_def example_opt_def
          torch_randn_def netG_def netD_def called_def mean_t_def ReLU_def radd_def backward_def)
  from fake_phase_gradient_isolation [OF run] run show ?thesis
    by (simp add: example_state_def example_torch_def)
qed

subsection \<open>The two loss functions\<close>

lemma bce_with_logits_eq: "bce_with_logits x y = (1 - y) * x + ln (1 + exp (- x))"
proof -
  define m where "m = max 0 (- x)"
  have "- x - m = - m + - x" by simp
  then have "exp (- x - m) = exp (- m) * exp (- x)"
    by (simp only: exp_add)
  then have "exp (- m) + exp (- x - m) = exp (- m) * (1 + exp (- x))"
    by (simp add: algebra_simps)
  moreover have "ln (exp (- m) * (1 + exp (- x))) = ln (exp (- m)) + ln (1 + exp (- x))"
    by (rule ln_mult_pos) (simp_all add: add_pos_pos)
  ultimately show ?thesis
    by (simp add: bce_with_logits_def Let_def m_def [symmetric])
qed

lemma bce_with_logits_BCE: "bce_with_logits x y = BCE (sigmoid x) y"
proof -
  have pos: "0 < 1 + exp (- x)" by (simp add: add_pos_pos)
  have s: "ln (sigmoid x) = - ln (1 + exp (- x))"
    unfolding sigmoid_def using pos by (simp add: ln_div)
  have "1 - sigmoid x = exp (- x) / (1 + exp (- x))"
    unfolding sigmoid_def using pos by (simp add: field_simps)
  then have c: "ln (1 - sigmoid x) = - x - ln (1 + exp (- x))"
    using pos by (simp add: ln_div)
  show ?thesis
    unfolding bce_with_logits_eq BCE_def s c by (simp add: algebra_simps)
qed






lemma map2_replicate: "n = length xs \<Longrightarrow> map2 f xs (replicate n c) = map (\<lambda>x. f x c) xs"
  by (induction xs arbitrary: n) auto


subsection \<open>Rounding to 32-bit floats\<close>













lemma float32_tie_to_even: "float32 16777217 = 16777216"
proof -
  have "(24 :: real) \<le> log 2 16777217" "log 2 16777217 < (25 :: real)"
    by (simp_all add: le_log_iff log_less_iff powr_numeral)
  then have l: "\<lfloor>log 2 (16777217 :: real)\<rfloor> = 24"
    by (simp add: floor_eq_iff)
  have f: "\<lfloor>16777217 / 2 :: real\<rfloor> = 8388608"
    by (simp add: floor_eq_iff)
  have "round_half_even (16777217 / 2) = 8388608"
    by (simp add: round_half_even_def f)
  then show ?thesis
    by (simp add: float32_def l)
qed







subsection \<open>The whole loop body\<close>

lemma train_with_real_losses:
  assumes "train_with_real env opt real_lbl data st
             = Some (real_cpu, batch_size, label, errD_real, D_x, st')"
  shows "sagan opt \<Longrightarrow>
           val errD_real = mean (map (\<lambda>s. relu (1 - s)) (netD_forward env (params st NetD) data))"
    "\<not> sagan opt \<Longrightarrow>
           val errD_real = mean (map2 bce_with_logits (netD_forward env (params st NetD) data)
                                   (replicate (length data) real_lbl))
         \<and> grad_fn errD_real = Unary (Bce (replicate (length data) real_lbl))
                                   (Call NetD (params st NetD) data Leaf)"
  using assms
  by (auto simp: train_with_real_def zero_grad_def netD_def called_def criterion_def full_def
        mean_t_def ReLU_def rsub_def backward_def Let_def comp_def
      split: prod.splits if_splits Option.bind_splits)

lemma train_with_fake_losses:
  assumes "train_with_fake env opt fake_lbl batch_size label0 st
             = Some (fake, label, errD_fake, D_G_z1, st')"
  shows "sagan opt \<Longrightarrow>
           val errD_fake = mean (map (\<lambda>s. relu (1 + s)) (netD_forward env (params st NetD) (val fake)))"
    "\<not> sagan opt \<Longrightarrow>
           val errD_fake = mean (map2 bce_with_logits (netD_forward env (params st NetD) (val fake))
                                   (replicate (length label0) fake_lbl))
         \<and> grad_fn errD_fake = Unary (Bce (replicate (length label0) fake_lbl))
                                   (Call NetD (params st NetD) (val fake) Leaf)"
  using assms
  by (auto simp: train_with_fake_def torch_randn_def netG_def netD_def called_def criterion_def
        fill_def mean_t_def ReLU_def radd_def backward_def Let_def comp_def
      split: prod.splits if_splits Option.bind_splits)

lemma update_G_losses:
  assumes "update_G env opt real_lbl label0 fake st = Some (errG, D_G_z2, st')"
  shows "sagan opt \<Longrightarrow> val errG = - mean (netD_forward env (params st NetD) (val fake))"
    "\<not> sagan opt \<Longrightarrow>
           val errG = mean (map2 bce_with_logits (netD_forward env (params st NetD) (val fake))
                              (replicate (length label0) real_lbl))
         \<and> grad_fn errG = Unary (Bce (replicate (length label0) real_lbl))
                              (Call NetD (params st NetD) (val fake) (grad_fn fake))"
  using assms
  by (auto simp: update_G_def zero_grad_def netD_def called_def criterion_def
        fill_def mean_t_def neg_def backward_def Let_def
      split: prod.splits if_splits Option.bind_splits)

lemma train_batch_sagan_total:
  "sagan opt \<Longrightarrow> \<exists>st'. train_batch env opt rl fl epoch len (i, data) st = Some st'"
  by (simp add: train_batch_def train_with_real_def train_with_fake_def update_G_def
        zero_grad_def netD_def netG_def torch_randn_def called_def backward_def
        mean_t_def ReLU_def rsub_def radd_def neg_def Let_def split: prod.splits)

lemma train_batch_effect:
  assumes run: "train_batch env opt rl fl epoch len (i, data) st = Some st'"
  defines "z \<equiv> fst (randn env (length data) (nz opt) (rng st))"
  defines "fake \<equiv> netG_forward env (params st NetG) z"
  obtains l1 g1 l2 g2 l3 g3 line where
    "calls st' = calls st @
       [Zero_grad NetD, Forward NetD data, Backward l1 g1,
        Randn (length data) (nz opt), Forward NetG z, Forward NetD fake, Backward l2 g2,
        Step NetD,
        Zero_grad NetG, Forward NetD fake, Backward l3 g3, Step NetG,
        Info line] @
       (if i mod 100 = 0 then
          [Save_image (take 64 data) (outf opt @ ''/real_samples.png'') True,
           Forward NetG (fixed_noise st),
           Save_image (netG_forward env (params st' NetG) (fixed_noise st))
             (outf opt @ ''/fake_samples_epoch_'' @ fmt_03d epoch @ ''.png'') True]
        else [])"
    "loss_source g1 = Some (NetD, params st NetD, data, Leaf)"
    "loss_source g2 = Some (NetD, params st NetD, fake, Leaf)"
    "loss_source g3 = Some (NetD, params st' NetD, fake, Call NetG (params st NetG) z Leaf)"
    "params st' NetD = fst (adam env (lr NetD) betas (moments st NetD) (params st NetD)
                             (autograd env NetD g1 + autograd env NetD g2))"
    "moments st' NetD = snd (adam env (lr NetD) betas (moments st NetD) (params st NetD)
                             (autograd env NetD g1 + autograd env NetD g2))"
    "params st' NetG = fst (adam env (lr NetG) betas (moments st NetG) (params st NetG)
                             (autograd env NetG g3))"
    "moments st' NetG = snd (adam env (lr NetG) betas (moments st NetG) (params st NetG)
                             (autograd env NetG g3))"
    "grads st' NetD = autograd env NetD g1 + autograd env NetD g2 + autograd env NetD g3"
    "grads st' NetG = autograd env NetG g3"
    "rng st' = snd (randn env (length data) (nz opt) (rng st))"
    "fixed_noise st' = fixed_noise st"
    "log_Loss_D line = l1 + l2" "log_Loss_G line = l3"
    "log_epoch line = epoch" "log_i line = i" "log_len line = len" "log_niter line = niter opt"
    "sagan opt \<Longrightarrow>
       l1 = mean (map (\<lambda>s. relu (1 - s)) (netD_forward env (params st NetD) data)) \<and>
       l2 = mean (map (\<lambda>s. relu (1 + s)) (netD_forward env (params st NetD) fake)) \<and>
       l3 = - mean (netD_forward env (params st' NetD) fake)"
    "\<not> sagan opt \<Longrightarrow>
       l1 = mean (map2 bce_with_logits (netD_forward env (params st NetD) data)
                    (replicate (length data) rl)) \<and>
       l2 = mean (map2 bce_with_logits (netD_forward env (params st NetD) fake)
                    (replicate (length data) fl)) \<and>
       l3 = mean (map2 bce_with_logits (netD_forward env (params st' NetD) fake)
                    (replicate (length data) rl)) \<and>
       g1 = Unary (Bce (replicate (length data) rl)) (Call NetD (params st NetD) data Leaf) \<and>
       g2 = Unary (Bce (replicate (length data) fl)) (Call NetD (params st NetD) fake Leaf) \<and>
       g3 = Unary (Bce (replicate (length data) rl))
              (Call NetD (params st' NetD) fake (Call NetG (params st NetG) z Leaf))"
proof -
  from run obtain real_cpu bs label1 errD_real D_x st1 fake_t label2 errD_fake D_G_z1 st2
    errG D_G_z2 st3 where
    p1: "train_with_real env opt rl data st = Some (real_cpu, bs, label1, errD_real, D_x, st1)" and
    p2: "train_with_fake env opt fl bs label1 st1 = Some (fake_t, label2, errD_fake, D_G_z1, st2)" and
    p3: "update_G env opt rl label2 fake_t (optimizer_step env NetD st2) = Some (errG, D_G_z2, st3)" and
    st': "st' = snapshot env opt epoch i real_cpu
       (called (Info \<lparr>log_epoch = epoch, log_niter = niter opt, log_i = i, log_len = len,
                       log_Loss_D = val errD_real + val errD_fake, log_Loss_G = val errG,
                       log_D_x = D_x, log_D_G_z1 = D_G_z1, log_D_G_z2 = D_G_z2\<rparr>) st3)"
    by (rule train_batch_cases)
  note e1 = train_with_real_effect [OF p1] and e2 = train_with_fake_effect [OF p2]
    and e3 = update_G_effect [OF p3]
  note v1 = train_with_real_losses [OF p1] and v2 = train_with_fake_losses [OF p2]
    and v3 = update_G_losses [OF p3]
  have fk: "val fake_t = fake" "grad_fn fake_t = Call NetG (params st NetG) z Leaf"
    using e1 e2 by (simp_all add: fake_def z_def)
  have pD: "params st3 NetD = params st' NetD" "params st3 NetG = params st' NetG"
    by (simp_all add: st' snapshot_effect called_def)
  have c3: "calls st3 = calls st @
       [Zero_grad NetD, Forward NetD data, Backward (val errD_real) (grad_fn errD_real),
        Randn (length data) (nz opt), Forward NetG z, Forward NetD fake,
        Backward (val errD_fake) (grad_fn errD_fake), Step NetD,
        Zero_grad NetG, Forward NetD fake, Backward (val errG) (grad_fn errG), Step NetG]"
    using e1(2,8,11) e2(11) e3(10) fk by (simp add: optimizer_step_effect z_def)
  have st3: "fixed_noise st3 = fixed_noise st" "rng st3 = snd (randn env (length data) (nz opt) (rng st))"
    "params st2 = params st" "moments st2 = moments st"
    using e1 e2 e3 by (simp_all add: optimizer_step_effect)
  have gD2: "grads st2 NetD = autograd env NetD (grad_fn errD_real) + autograd env NetD (grad_fn errD_fake)"
    using e1(12) e2(12) by simp
  have pD': "params st' NetD = fst (adam env (lr NetD) betas (moments st NetD) (params st NetD)
                             (autograd env NetD (grad_fn errD_real) + autograd env NetD (grad_fn errD_fake)))"
    "moments st' NetD = snd (adam env (lr NetD) betas (moments st NetD) (params st NetD)
                             (autograd env NetD (grad_fn errD_real) + autograd env NetD (grad_fn errD_fake)))"
    using e3(3,4) gD2 st3(3,4)
    by (simp_all add: st' snapshot_effect called_def optimizer_step_effect)
  have pG': "params st' NetG = fst (adam env (lr NetG) betas (moments st NetG) (params st NetG)
                             (autograd env NetG (grad_fn errG)))"
    "moments st' NetG = snd (adam env (lr NetG) betas (moments st NetG) (params st NetG)
                             (autograd env NetG (grad_fn errG)))"
    using e3(5,6) fk(2) st3(3,4)
    by (simp_all add: st' snapshot_effect called_def optimizer_step_effect)
  have pD3: "params (optimizer_step env NetD st2) NetD = params st' NetD"
    using e3(3) by (simp add: st' snapshot_effect called_def)
  have len: "bs = length data" "length label1 = length data" "length label2 = length data"
    using e1(2,3) e2(3) by simp_all
  show ?thesis
  proof (rule that [of "val errD_real" "grad_fn errD_real" "val errD_fake" "grad_fn errD_fake"
        "val errG" "grad_fn errG"
        "\<lparr>log_epoch = epoch, log_niter = niter opt, log_i = i, log_len = len,
                       log_Loss_D = val errD_real + val errD_fake, log_Loss_G = val errG,
                       log_D_x = D_x, log_D_G_z1 = D_G_z1, log_D_G_z2 = D_G_z2\<rparr>"])
    show "calls st' = calls st @
       [Zero_grad NetD, Forward NetD data, Backward (val errD_real) (grad_fn errD_real),
        Randn (length data) (nz opt), Forward NetG z, Forward NetD fake,
        Backward (val errD_fake) (grad_fn errD_fake),
        Step NetD,
        Zero_grad NetG, Forward NetD fake, Backward (val errG) (grad_fn errG), Step NetG,
        Info \<lparr>log_epoch = epoch, log_niter = niter opt, log_i = i, log_len = len,
                       log_Loss_D = val errD_real + val errD_fake, log_Loss_G = val errG,
                       log_D_x = D_x, log_D_G_z1 = D_G_z1, log_D_G_z2 = D_G_z2\<rparr>] @
       (if i mod 100 = 0 then
          [Save_image (take 64 data) (outf opt @ ''/real_samples.png'') True,
           Forward NetG (fixed_noise st),
           Save_image (netG_forward env (params st' NetG) (fixed_noise st))
             (outf opt @ ''/fake_samples_epoch_'' @ fmt_03d epoch @ ''.png'') True]
        else [])"
      using c3 st3(1) e1(1) pD(2) by (simp add: st' snapshot_effect called_def)
    show "loss_source (grad_fn errD_real) = Some (NetD, params st NetD, data, Leaf)"
      by (rule e1(4))
    show "loss_source (grad_fn errD_fake) = Some (NetD, params st NetD, fake, Leaf)"
      using e2(4) e1(6) fk(1) by simp
    show "loss_source (grad_fn errG) = Some (NetD, params st' NetD, fake, Call NetG (params st NetG) z Leaf)"
      using e3(1) fk pD3 by simp
    show "grads st' NetD = autograd env NetD (grad_fn errD_real) + autograd env NetD (grad_fn errD_fake)
        + autograd env NetD (grad_fn errG)"
      using e3(11) gD2 by (simp add: st' snapshot_effect called_def optimizer_step_effect)
    show "grads st' NetG = autograd env NetG (grad_fn errG)"
      using e3(12) fk(2) by (simp add: st' snapshot_effect called_def)
    show "rng st' = snd (randn env (length data) (nz opt) (rng st))"
      using st3(2) by (simp add: st' snapshot_effect called_def)
    show "fixed_noise st' = fixed_noise st"
      using st3(1) by (simp add: st' snapshot_effect called_def)
    show "sagan opt \<Longrightarrow>
       val errD_real = mean (map (\<lambda>s. relu (1 - s)) (netD_forward env (params st NetD) data)) \<and>
       val errD_fake = mean (map (\<lambda>s. relu (1 + s)) (netD_forward env (params st NetD) fake)) \<and>
       val errG = - mean (netD_forward env (params st' NetD) fake)"
      using v1(1) v2(1) v3(1) e1(6) fk(1) pD3 by simp
    show "\<not> sagan opt \<Longrightarrow>
       val errD_real = mean (map2 bce_with_logits (netD_forward env (params st NetD) data)
                    (replicate (length data) rl)) \<and>
       val errD_fake = mean (map2 bce_with_logits (netD_forward env (params st NetD) fake)
                    (replicate (length data) fl)) \<and>
       val errG = mean (map2 bce_with_logits (netD_forward env (params st' NetD) fake)
                    (replicate (length data) rl)) \<and>
       grad_fn errD_real = Unary (Bce (replicate (length data) rl)) (Call NetD (params st NetD) data Leaf) \<and>
       grad_fn errD_fake = Unary (Bce (replicate (length data) fl)) (Call NetD (params st NetD) fake Leaf) \<and>
       grad_fn errG = Unary (Bce (replicate (length data) rl))
              (Call NetD (params st' NetD) fake (Call NetG (params st NetG) z Leaf))"
      using v1(2) v2(2) v3(2) e1(6) fk pD3 len by simp
  qed (simp_all add: pD' pG')
qed

subsection \<open>Gradients left over from an earlier batch\<close>

lemma net_neq:
  "(NetD \<noteq> n) = (n = NetG)" "(n \<noteq> NetD) = (n = NetG)"
  "(NetG \<noteq> n) = (n = NetD)" "(n \<noteq> NetG) = (n = NetD)"
  by (cases n; simp)+

lemma train_with_real_stale:
  "train_with_real env opt rl data (s\<lparr>grads := g\<rparr>)
     = map_option (\<lambda>(rc, bs, lb, e, dx, s'). (rc, bs, lb, e, dx, s'\<lparr>grads := (grads s')(NetG := g NetG)\<rparr>))
         (train_with_real env opt rl data s)"
  by (auto simp: train_with_real_def zero_grad_def netD_def called_def backward_def criterion_def
        mean_t_def ReLU_def rsub_def fun_eq_iff net_neq Let_def intro!: state.equality)

lemma train_with_fake_stale:
  "train_with_fake env opt fl bs lb0 (s\<lparr>grads := (grads s)(NetG := x)\<rparr>)
     = map_option (\<lambda>(fk, lb, e, dz, s'). (fk, lb, e, dz, s'\<lparr>grads := (grads s')(NetG := x)\<rparr>))
         (train_with_fake env opt fl bs lb0 s)"
  by (auto simp: train_with_fake_def torch_randn_def netG_def netD_def called_def backward_def
        criterion_def mean_t_def ReLU_def radd_def fun_eq_iff net_neq Let_def split: prod.splits
      intro!: state.equality)

lemma optimizer_step_stale:
  "optimizer_step env NetD (s\<lparr>grads := (grads s)(NetG := x)\<rparr>)
     = (optimizer_step env NetD s)\<lparr>grads := (grads (optimizer_step env NetD s))(NetG := x)\<rparr>"
  by (auto simp: optimizer_step_def called_def fun_eq_iff net_neq split: prod.splits intro!: state.equality)

lemma update_G_stale:
  "update_G env opt rl lb0 fake (s\<lparr>grads := (grads s)(NetG := x)\<rparr>)
     = update_G env opt rl lb0 fake s"
  by (simp add: update_G_def zero_grad_def called_def netD_def Let_def)

lemma train_batch_stale:
  "train_batch env opt rl fl epoch len idata (s\<lparr>grads := g\<rparr>)
     = train_batch env opt rl fl epoch len idata s"
proof (cases idata)
  case (Pair i data)
  show ?thesis
  proof (cases "train_with_real env opt rl data s")
    case None
    then show ?thesis
      by (simp add: train_batch_def Pair train_with_real_stale)
  next
    case (Some r1)
    obtain rc bs lb e dx s1 where r1: "r1 = (rc, bs, lb, e, dx, s1)"
      by (cases r1) auto
    show ?thesis
    proof (cases "train_with_fake env opt fl bs lb s1")
      case None
      then show ?thesis
        using Some by (simp add: train_batch_def Pair train_with_real_stale r1 train_with_fake_stale)
    next
      case (Some r2)
      obtain fk lb2 e2 dz s2 where r2: "r2 = (fk, lb2, e2, dz, s2)"
        by (cases r2) auto
      show ?thesis
        using Some \<open>train_with_real env opt rl data s = Some r1\<close>
        by (simp add: train_batch_def Pair train_with_real_stale r1 r2 train_with_fake_stale
              optimizer_step_stale update_G_stale)
    qed
  qed
qed


subsection \<open>Traces and sources\<close>

lemma new_calls_append: "calls st' = calls st @ cs \<Longrightarrow> new_calls st st' = cs"
  by (simp add: new_calls_def)

lemma loss_source_reaches: "loss_source g = Some (n, p, x, h) \<Longrightarrow> reaches n g"
  by (induction g) auto

subsection \<open>Runs of the small instance\<close>

lemma example_hinge_runs:
  "\<exists>st'. train_batch example_torch (example_opt True 1) real_label fake_label 0 1 (0, [[1], [2]]) example_state = Some st'"
  by (rule train_batch_sagan_total) (simp add: example_opt_def)

lemma example_bce_runs:
  "\<exists>st'. train_batch example_torch (example_opt False 1) real_label fake_label 0 1 (0, [[1], [2]]) example_state = Some st'"
  by (simp add: train_batch_def train_with_real_def train_with_fake_def update_G_def
        zero_grad_def netD_def netG_def torch_randn_def called_def backward_def criterion_def
        full_def fill_def example_torch_def example_opt_def example_state_def
        Let_def split: prod.splits)

subsection \<open>One generator output, scored twice\<close>

text \<open>
  Claim C2. In one pass through the loop body the discriminator runs three times: on the
  real batch and twice on one and the same generator output. The loss of the
  discriminator's fake phase was computed from that output with no history (detached),
  the loss of the generator phase from the same output with its history back to the
  generator and the noise it was drawn from. The body draws noise exactly once, so none
  is drawn for the generator phase, and the generator runs once on that noise (and once
  more, on the fixed noise, when a snapshot is taken).
\<close>

theorem fake_batch_scored_twice:
  assumes "train_batch env opt rl fl epoch len (i, data) st = Some st'"
  shows "let z = fst (randn env (length data) (nz opt) (rng st));
             fake = netG_forward env (params st NetG) z
         in forwards NetD (new_calls st st') = [data, fake, fake]
          \<and> map (loss_source \<circ> snd) (backwards (new_calls st st')) =
              [Some (NetD, params st NetD, data, Leaf),
               Some (NetD, params st NetD, fake, Leaf),
               Some (NetD, params st' NetD, fake, Call NetG (params st NetG) z Leaf)]
          \<and> draws (new_calls st st') = [(length data, nz opt)]
          \<and> forwards NetG (new_calls st st')
              = z # (if i mod 100 = 0 then [fixed_noise st] else [])"
proof -
  from assms obtain l1 g1 l2 g2 l3 g3 line where
    tr: "new_calls st st' =
       [Zero_grad NetD, Forward NetD data, Backward l1 g1,
        Randn (length data) (nz opt),
        Forward NetG (fst (randn env (length data) (nz opt) (rng st))),
        Forward NetD (netG_forward env (params st NetG)
                        (fst (randn env (length data) (nz opt) (rng st)))),
        Backward l2 g2, Step NetD, Zero_grad NetG,
        Forward NetD (netG_forward env (params st NetG)
                        (fst (randn env (length data) (nz opt) (rng st)))),
        Backward l3 g3, Step NetG, Info line] @
       (if i mod 100 = 0 then
          [Save_image (take 64 data) (outf opt @ ''/real_samples.png'') True,
           Forward NetG (fixed_noise st),
           Save_image (netG_forward env (params st' NetG) (fixed_noise st))
             (outf opt @ ''/fake_samples_epoch_'' @ fmt_03d epoch @ ''.png'') True]
        else [])" and
    src: "loss_source g1 = Some (NetD, params st NetD, data, Leaf)"
    "loss_source g2 = Some (NetD, params st NetD,
        netG_forward env (params st NetG) (fst (randn env (length data) (nz opt) (rng st))), Leaf)"
    "loss_source g3 = Some (NetD, params st' NetD,
        netG_forward env (params st NetG) (fst (randn env (length data) (nz opt) (rng st))),
        Call NetG (params st NetG) (fst (randn env (length data) (nz opt) (rng st))) Leaf)"
    by (rule train_batch_effect) (simp add: new_calls_append)
  show ?thesis
    unfolding Let_def tr using src by simp
qed

theorem fake_batch_scored_twice_witness:
  "\<exists>st'. train_batch example_torch (example_opt True 1) real_label fake_label 0 1 (0, [[1], [2]]) example_state = Some st'
     \<and> forwards NetD (new_calls example_state st') = [[[1], [2]], [[1], [1]], [[1], [1]]]
     \<and> draws (new_calls example_state st') = [(2, 1)]
     \<and> forwards NetG (new_calls example_state st') = [[[0], [0]], []]"
proof -
  from example_hinge_runs obtain st' where run:
    "train_batch example_torch (example_opt True 1) real_label fake_label 0 1 (0, [[1], [2]]) example_state = Some st'" ..
  from fake_batch_scored_twice [OF run] run show ?thesis
    by (simp add: Let_def example_torch_def example_state_def example_opt_def)
qed

subsection \<open>The discriminator's update\<close>

text \<open>
  Claim C3. In one pass through the loop body the first call clears the discriminator's
  gradient and it is cleared only then; two backward passes, of the real loss and of the
  fake loss, come before the discriminator's only optimizer step, which is applied to the
  sum of their two gradients; the logged discriminator loss is the sum of the two losses;
  and three losses are differentiated in all, none of which is that sum.
\<close>

theorem discriminator_step_uses_summed_gradient:
  assumes "train_batch env opt rl fl epoch len (i, data) st = Some st'"
  shows "\<exists>l1 g1 l2 g2 l3 g3 line.
      hd (new_calls st st') = Zero_grad NetD
    \<and> count_list (new_calls st st') (Zero_grad NetD) = 1
    \<and> count_list (new_calls st st') (Step NetD) = 1
    \<and> backwards (takeWhile (\<lambda>c. c \<noteq> Step NetD) (new_calls st st')) = [(l1, g1), (l2, g2)]
    \<and> backwards (new_calls st st') = [(l1, g1), (l2, g2), (l3, g3)]
    \<and> (params st' NetD, moments st' NetD)
        = adam env (lr NetD) betas (moments st NetD) (params st NetD)
            (autograd env NetD g1 + autograd env NetD g2)
    \<and> infos (new_calls st st') = [line] \<and> log_Loss_D line = l1 + l2
    \<and> (l1 + l2, Add g1 g2) \<notin> set (backwards (new_calls st st'))"
proof -
  from assms obtain l1 g1 l2 g2 l3 g3 line where
    tr: "new_calls st st' =
       [Zero_grad NetD, Forward NetD data, Backward l1 g1,
        Randn (length data) (nz opt),
        Forward NetG (fst (randn env (length data) (nz opt) (rng st))),
        Forward NetD (netG_forward env (params st NetG)
                        (fst (randn env (length data) (nz opt) (rng st)))),
        Backward l2 g2, Step NetD, Zero_grad NetG,
        Forward NetD (netG_forward env (params st NetG)
                        (fst (randn env (length data) (nz opt) (rng st)))),
        Backward l3 g3, Step NetG, Info line] @
       (if i mod 100 = 0 then
          [Save_image (take 64 data) (outf opt @ ''/real_samples.png'') True,
           Forward NetG (fixed_noise st),
           Save_image (netG_forward env (params st' NetG) (fixed_noise st))
             (outf opt @ ''/fake_samples_epoch_'' @ fmt_03d epoch @ ''.png'') True]
        else [])" and
    src: "loss_source g1 = Some (NetD, params st NetD, data, Leaf)"
    "loss_source g2 = Some (NetD, params st NetD,
        netG_forward env (params st NetG) (fst (randn env (length data) (nz opt) (rng st))), Leaf)"
    "loss_source g3 = Some (NetD, params st' NetD,
        netG_forward env (params st NetG) (fst (randn env (length data) (nz opt) (rng st))),
        Call NetG (params st NetG) (fst (randn env (length data) (nz opt) (rng st))) Leaf)" and
    upd: "params st' NetD = fst (adam env (lr NetD) betas (moments st NetD) (params st NetD)
                             (autograd env NetD g1 + autograd env NetD g2))"
    "moments st' NetD = snd (adam env (lr NetD) betas (moments st NetD) (params st NetD)
                             (autograd env NetD g1 + autograd env NetD g2))" and
    lg: "log_Loss_D line = l1 + l2"
    by (rule train_batch_effect) (simp add: new_calls_append)
  have ne: "g1 \<noteq> Add g1 g2" "g2 \<noteq> Add g1 g2" "g3 \<noteq> Add g1 g2"
    using src by auto
  show ?thesis
    apply (rule exI [of _ l1], rule exI [of _ g1], rule exI [of _ l2], rule exI [of _ g2],
        rule exI [of _ l3], rule exI [of _ g3], rule exI [of _ line])
    unfolding tr using ne upd lg by (simp add: prod_eq_iff)
qed

theorem discriminator_step_uses_summed_gradient_witness:
  "\<exists>st'. train_batch example_torch (example_opt True 1) real_label fake_label 0 1 (0, [[1], [2]]) example_state = Some st'
     \<and> count_list (new_calls example_state st') (Step NetD) = 1
     \<and> params st' NetD = 1 - 4 / 10000 * 2"
proof -
  from example_hinge_runs obtain st' where run:
    "train_batch example_torch (example_opt True 1) real_label fake_label 0 1 (0, [[1], [2]]) example_state = Some st'" ..
  from discriminator_step_uses_summed_gradient [OF run] run show ?thesis
    by (auto simp: example_torch_def example_state_def)
qed

subsection \<open>The generator phase\<close>

text \<open>
  Claim C4. The generator phase leaves the discriminator's parameters and optimizer state
  as they were. Its backward pass does reach the discriminator and adds to the
  discriminator's gradient, but the only optimizer step of the phase is the generator's.
  The gradient left behind is never used: the next pass through the loop body gives the
  same result whatever the gradients are when it starts.
\<close>

theorem generator_phase_leaves_discriminator:
  assumes "update_G env opt real_lbl label0 fake st = Some (errG, D_G_z2, st')"
  shows "params st' NetD = params st NetD \<and> moments st' NetD = moments st NetD
       \<and> reaches NetD (grad_fn errG)
       \<and> grads st' NetD = grads st NetD + autograd env NetD (grad_fn errG)
       \<and> new_calls st st' = [Zero_grad NetG, Forward NetD (val fake),
                               Backward (val errG) (grad_fn errG), Step NetG]
       \<and> (\<forall>g rl fl epoch len idata.
            train_batch env opt rl fl epoch len idata (st'\<lparr>grads := g\<rparr>)
              = train_batch env opt rl fl epoch len idata st')"
proof -
  have "reaches NetD (grad_fn errG)"
    using update_G_effect(1) [OF assms] by (rule loss_source_reaches)
  then show ?thesis
    using update_G_effect(3,4,10,11) [OF assms]
    by (simp add: new_calls_append train_batch_stale)
qed

theorem generator_phase_leaves_discriminator_witness:
  "\<exists>errG D_G_z2 st'.
     update_G example_torch (example_opt True 1) real_label [0, 0]
       \<lparr>val = [[1], [1]], grad_fn = Call NetG 1 [[0], [0]] Leaf\<rparr> example_state
       = Some (errG, D_G_z2, st')
     \<and> params st' NetD = 1 \<and> grads st' NetD = 6
     \<and> params st' NetG = 1 - 1 / 10000"
proof -
  obtain errG D_G_z2 st' where run:
    "update_G example_torch (example_opt True 1) real_label [0, 0]
       \<lparr>val = [[1], [1]], grad_fn = Call NetG 1 [[0], [0]] Leaf\<rparr> example_state
       = Some (errG, D_G_z2, st')"
    by (simp add: update_G_def example_opt_def zero_grad_def netD_def called_def backward_def
          neg_def mean_t_def Let_def)
  from generator_phase_leaves_discriminator [OF run] update_G_effect(5) [OF run] show ?thesis
    using run by (simp add: example_state_def example_torch_def)
qed

subsection \<open>Labels in the hinge variant\<close>

text \<open>
  Claim C8. In the hinge variant the values written into the label tensor have no effect:
  the loop body gives the same result (same state, with its parameters, gradients,
  optimizer states, files, log lines and calls, or the same failure) for any two pairs of
  label values.
\<close>

theorem hinge_ignores_labels:
  assumes "sagan opt"
  shows "train_batch env opt rl fl epoch len idata st
       = train_batch env opt rl' fl' epoch len idata st"
  using assms
  by (simp add: train_batch_def train_with_real_def train_with_fake_def update_G_def
        zero_grad_def netD_def netG_def torch_randn_def called_def backward_def
        mean_t_def ReLU_def rsub_def radd_def neg_def Let_def split: prod.splits)

theorem hinge_ignores_labels_witness:
  "sagan (example_opt True 1)
   \<and> train_batch example_torch (example_opt True 1) real_label fake_label 0 1 (0, [[1], [2]]) example_state
     = train_batch example_torch (example_opt True 1) 7 (- 3) 0 1 (0, [[1], [2]]) example_state"
  using hinge_ignores_labels [of "example_opt True 1" example_torch real_label fake_label 0 1
      "(0, [[1], [2]])" example_state 7 "- 3"]
  by (simp add: example_opt_def)

subsection \<open>Score vectors in the cross-entropy variant\<close>

lemma train_with_real_bce_length:
  assumes "train_with_real env opt real_lbl data st
             = Some (real_cpu, batch_size, label, errD_real, D_x, st')" "\<not> sagan opt"
  shows "length (netD_forward env (params st NetD) data) = length data"
  using assms
  by (auto simp: train_with_real_def zero_grad_def netD_def called_def criterion_def full_def
        Let_def split: prod.splits if_splits Option.bind_splits)

lemma train_with_fake_bce_length:
  assumes "train_with_fake env opt fake_lbl batch_size label0 st
             = Some (fake, label, errD_fake, D_G_z1, st')" "\<not> sagan opt"
  shows "length (netD_forward env (params st NetD) (val fake)) = length label0"
  using assms
  by (auto simp: train_with_fake_def torch_randn_def netG_def netD_def called_def criterion_def
        fill_def Let_def split: prod.splits if_splits Option.bind_splits)

lemma update_G_bce_length:
  assumes "update_G env opt real_lbl label0 fake st = Some (errG, D_G_z2, st')" "\<not> sagan opt"
  shows "length (netD_forward env (params st NetD) (val fake)) = length label0"
  using assms
  by (auto simp: update_G_def zero_grad_def netD_def called_def criterion_def
        fill_def Let_def split: prod.splits if_splits Option.bind_splits)

lemma train_batch_bce_lengths:
  assumes run: "train_batch env opt rl fl epoch len (i, data) st = Some st'" and bce: "\<not> sagan opt"
  shows "length (netD_forward env (params st NetD) data) = length data"
    "length (netD_forward env (params st NetD) (netG_forward env (params st NetG) (fst (randn env (length data) (nz opt) (rng st))))) = length data"
    "length (netD_forward env (params st' NetD) (netG_forward env (params st NetG) (fst (randn env (length data) (nz opt) (rng st))))) = length data"
proof -
  from run obtain real_cpu bs label1 errD_real D_x st1 fake_t label2 errD_fake D_G_z1 st2
    errG D_G_z2 st3 where
    p1: "train_with_real env opt rl data st = Some (real_cpu, bs, label1, errD_real, D_x, st1)" and
    p2: "train_with_fake env opt fl bs label1 st1 = Some (fake_t, label2, errD_fake, D_G_z1, st2)" and
    p3: "update_G env opt rl label2 fake_t (optimizer_step env NetD st2) = Some (errG, D_G_z2, st3)" and
    st': "st' = snapshot env opt epoch i real_cpu
       (called (Info \<lparr>log_epoch = epoch, log_niter = niter opt, log_i = i, log_len = len,
                       log_Loss_D = val errD_real + val errD_fake, log_Loss_G = val errG,
                       log_D_x = D_x, log_D_G_z1 = D_G_z1, log_D_G_z2 = D_G_z2\<rparr>) st3)"
    by (rule train_batch_cases)
  note e1 = train_with_real_effect [OF p1] and e2 = train_with_fake_effect [OF p2]
    and e3 = update_G_effect [OF p3]
  have fk: "val fake_t = netG_forward env (params st NetG) (fst (randn env (length data) (nz opt) (rng st)))"
    using e1(2,6,8) e2(1) by simp
  show "length (netD_forward env (params st NetD) data) = length data"
    using train_with_real_bce_length [OF p1 bce] .
  show "length (netD_forward env (params st NetD) (netG_forward env (params st NetG) (fst (randn env (length data) (nz opt) (rng st))))) = length data"
    using train_with_fake_bce_length [OF p2 bce] e1(3,6) fk by simp
  have "params (optimizer_step env NetD st2) NetD = params st' NetD"
    using e3(3) by (simp add: st' snapshot_effect called_def)
  then show "length (netD_forward env (params st' NetD) (netG_forward env (params st NetG) (fst (randn env (length data) (nz opt) (rng st))))) = length data"
    using update_G_bce_length [OF p3 bce] e1(3) e2(3) fk by simp
qed

lemma map2_bce_replicate:
  "length xs = n \<Longrightarrow> map2 bce_with_logits xs (replicate n c) = map (\<lambda>s. BCE (sigmoid s) c) xs"
  by (simp add: map2_replicate bce_with_logits_BCE)

subsection \<open>The hinge losses\<close>

text \<open>
  Claim C5. In the hinge variant the loop body always completes, and the three losses it
  differentiates are, in order, the mean of \<open>relu (1 - s)\<close> over the discriminator's scores
  of the real batch, the mean of \<open>relu (1 + s)\<close> over its scores of the generator output,
  and minus the mean of its scores of the same generator output after the discriminator's
  update. The logged discriminator loss is the sum of the first two and the logged
  generator loss is the third.
\<close>

theorem hinge_losses:
  assumes "sagan opt"
  shows "\<exists>st' line. train_batch env opt rl fl epoch len (i, data) st = Some st'
     \<and> (let fake = netG_forward env (params st NetG)
                      (fst (randn env (length data) (nz opt) (rng st)))
        in map fst (backwards (new_calls st st')) =
             [mean (map (\<lambda>s. relu (1 - s)) (netD_forward env (params st NetD) data)),
              mean (map (\<lambda>s. relu (1 + s)) (netD_forward env (params st NetD) fake)),
              - mean (netD_forward env (params st' NetD) fake)]
         \<and> infos (new_calls st st') = [line]
         \<and> log_Loss_D line
             = mean (map (\<lambda>s. relu (1 - s)) (netD_forward env (params st NetD) data))
             + mean (map (\<lambda>s. relu (1 + s)) (netD_forward env (params st NetD) fake))
         \<and> log_Loss_G line = - mean (netD_forward env (params st' NetD) fake))"
proof -
  from assms obtain st' where run: "train_batch env opt rl fl epoch len (i, data) st = Some st'"
    using train_batch_sagan_total by blast
  from run obtain l1 g1 l2 g2 l3 g3 line where
    tr: "new_calls st st' =
       [Zero_grad NetD, Forward NetD data, Backward l1 g1,
        Randn (length data) (nz opt), Forward NetG (fst (randn env (length data) (nz opt) (rng st))),
        Forward NetD (netG_forward env (params st NetG) (fst (randn env (length data) (nz opt) (rng st)))),
        Backward l2 g2, Step NetD, Zero_grad NetG,
        Forward NetD (netG_forward env (params st NetG) (fst (randn env (length data) (nz opt) (rng st)))),
        Backward l3 g3, Step NetG, Info line] @
       (if i mod 100 = 0 then
          [Save_image (take 64 data) (outf opt @ ''/real_samples.png'') True,
           Forward NetG (fixed_noise st),
           Save_image (netG_forward env (params st' NetG) (fixed_noise st))
             (outf opt @ ''/fake_samples_epoch_'' @ fmt_03d epoch @ ''.png'') True]
        else [])" and
    lg: "log_Loss_D line = l1 + l2" "log_Loss_G line = l3" and
    v: "sagan opt \<Longrightarrow>
       l1 = mean (map (\<lambda>s. relu (1 - s)) (netD_forward env (params st NetD) data)) \<and>
       l2 = mean (map (\<lambda>s. relu (1 + s)) (netD_forward env (params st NetD) (netG_forward env (params st NetG) (fst (randn env (length data) (nz opt) (rng st)))))) \<and>
       l3 = - mean (netD_forward env (params st' NetD) (netG_forward env (params st NetG) (fst (randn env (length data) (nz opt) (rng st)))))"
    by (rule train_batch_effect) (simp add: new_calls_append)
  show ?thesis
    apply (rule exI [of _ st'], rule exI [of _ line])
    unfolding Let_def tr using run lg v [OF assms] by simp
qed

theorem hinge_losses_witness:
  "\<exists>st'. train_batch example_torch (example_opt True 1) real_label fake_label 0 1 (0, [[1], [2]]) example_state = Some st'
     \<and> map fst (backwards (new_calls example_state st')) = [0, 2, - params st' NetD]"
proof -
  from hinge_losses [of "example_opt True 1" example_torch real_label fake_label 0 1 0
      "[[1], [2]]" example_state]
  show ?thesis
    by (auto simp: Let_def example_opt_def example_torch_def example_state_def mean_def relu_def)
qed

subsection \<open>The cross-entropy losses\<close>

text \<open>
  Claim C6. In the cross-entropy variant, with the script's labels 1 and 0, the three
  losses the loop body differentiates are the mean binary cross entropy of the sigmoid of
  the discriminator's scores against the target 1 on the real batch, against 0 on the
  generator output, and against 1 on the generator output after the discriminator's
  update. Each is computed by the criterion applied directly to the scores the
  discriminator returns, in the form that takes the largest exponent out of the
  logarithm; the history of each loss is the criterion on top of the discriminator call.
\<close>

theorem cross_entropy_losses:
  assumes "\<not> sagan opt"
    and "train_batch env opt real_label fake_label epoch len (i, data) st = Some st'"
  shows "let z = fst (randn env (length data) (nz opt) (rng st));
             fake = netG_forward env (params st NetG) z
         in backwards (new_calls st st') =
             [(mean (map (\<lambda>s. BCE (sigmoid s) 1) (netD_forward env (params st NetD) data)),
               Unary (Bce (replicate (length data) 1)) (Call NetD (params st NetD) data Leaf)),
              (mean (map (\<lambda>s. BCE (sigmoid s) 0) (netD_forward env (params st NetD) fake)),
               Unary (Bce (replicate (length data) 0)) (Call NetD (params st NetD) fake Leaf)),
              (mean (map (\<lambda>s. BCE (sigmoid s) 1) (netD_forward env (params st' NetD) fake)),
               Unary (Bce (replicate (length data) 1))
                 (Call NetD (params st' NetD) fake (Call NetG (params st NetG) z Leaf)))]"
proof -
  note run = assms(2)
  from run obtain l1 g1 l2 g2 l3 g3 line where
    tr: "new_calls st st' =
       [Zero_grad NetD, Forward NetD data, Backward l1 g1,
        Randn (length data) (nz opt), Forward NetG (fst (randn env (length data) (nz opt) (rng st))),
        Forward NetD (netG_forward env (params st NetG) (fst (randn env (length data) (nz opt) (rng st)))),
        Backward l2 g2, Step NetD, Zero_grad NetG,
        Forward NetD (netG_forward env (params st NetG) (fst (randn env (length data) (nz opt) (rng st)))),
        Backward l3 g3, Step NetG, Info line] @
       (if i mod 100 = 0 then
          [Save_image (take 64 data) (outf opt @ ''/real_samples.png'') True,
           Forward NetG (fixed_noise st),
           Save_image (netG_forward env (params st' NetG) (fixed_noise st))
             (outf opt @ ''/fake_samples_epoch_'' @ fmt_03d epoch @ ''.png'') True]
        else [])" and
    v: "\<not> sagan opt \<Longrightarrow>
       l1 = mean (map2 bce_with_logits (netD_forward env (params st NetD) data)
                    (replicate (length data) real_label)) \<and>
       l2 = mean (map2 bce_with_logits (netD_forward env (params st NetD) (netG_forward env (params st NetG) (fst (randn env (length data) (nz opt) (rng st)))))
                    (replicate (length data) fake_label)) \<and>
       l3 = mean (map2 bce_with_logits (netD_forward env (params st' NetD) (netG_forward env (params st NetG) (fst (randn env (length data) (nz opt) (rng st)))))
                    (replicate (length data) real_label)) \<and>
       g1 = Unary (Bce (replicate (length data) real_label)) (Call NetD (params st NetD) data Leaf) \<and>
       g2 = Unary (Bce (replicate (length data) fake_label))
              (Call NetD (params st NetD) (netG_forward env (params st NetG) (fst (randn env (length data) (nz opt) (rng st)))) Leaf) \<and>
       g3 = Unary (Bce (replicate (length data) real_label))
              (Call NetD (params st' NetD) (netG_forward env (params st NetG) (fst (randn env (length data) (nz opt) (rng st))))
                 (Call NetG (params st NetG) (fst (randn env (length data) (nz opt) (rng st))) Leaf))"
    by (rule train_batch_effect) (simp add: new_calls_append)
  note len = train_batch_bce_lengths [OF run assms(1)]
  show ?thesis
    unfolding Let_def tr using v [OF assms(1)] len
    by (simp add: map2_bce_replicate real_label_def fake_label_def)
qed

theorem cross_entropy_losses_witness:
  "\<exists>st'. train_batch example_torch (example_opt False 1) real_label fake_label 0 1 (0, [[1], [2]]) example_state = Some st'
     \<and> map snd (backwards (new_calls example_state st')) =
         [Unary (Bce [1, 1]) (Call NetD 1 [[1], [2]] Leaf),
          Unary (Bce [0, 0]) (Call NetD 1 [[1], [1]] Leaf),
          Unary (Bce [1, 1]) (Call NetD (params st' NetD) [[1], [1]]
            (Call NetG 1 [[0], [0]] Leaf))]
     \<and> hd (map fst (backwards (new_calls example_state st')))
         = (BCE (sigmoid 1) 1 + BCE (sigmoid 2) 1) / 2"
proof -
  from example_bce_runs obtain st' where run:
    "train_batch example_torch (example_opt False 1) real_label fake_label 0 1 (0, [[1], [2]]) example_state = Some st'" ..
  have "\<not> sagan (example_opt False 1)"
    by (simp add: example_opt_def)
  from cross_entropy_losses [OF this run] run show ?thesis
    by (simp add: Let_def example_opt_def example_torch_def example_state_def mean_def
          numeral_2_eq_2)
qed

subsection \<open>File names\<close>

lemma of_char_digit: "d < 10 \<Longrightarrow> of_char (digit d) = 48 + d"
  by (simp add: digit_def)

lemma fmt_d_value: "foldl (\<lambda>a c. 10 * a + (of_char c - 48)) 0 (fmt_d n) = n"
proof (induction n rule: fmt_d.induct)
  case (1 n)
  show ?case
  proof (cases "n < 10")
    case True
    then show ?thesis
      by (subst fmt_d.simps) (simp add: of_char_digit)
  next
    case False
    with 1 show ?thesis
      by (subst fmt_d.simps) (simp add: of_char_digit)
  qed
qed

lemma zeros_value: "foldl (\<lambda>a c. 10 * a + (of_char c - 48)) (0::nat) (replicate k (CHR ''0'')) = 0"
  by (induction k) simp_all

lemma fmt_03d_value: "foldl (\<lambda>a c. 10 * a + (of_char c - 48)) 0 (fmt_03d n) = n"
  by (simp add: fmt_03d_def zeros_value fmt_d_value)

lemma fmt_03d_inj: "fmt_03d m = fmt_03d n \<longleftrightarrow> m = n"
  by (metis fmt_03d_value)

lemma fmt_03d_small: "fmt_03d 0 = ''000''" "fmt_03d (Suc 0) = ''001''"
  by code_simp+

subsection \<open>Pictures written by a run\<close>

lemma pictures_append: "pictures (xs @ ys) = pictures xs @ pictures ys"
  by (induction xs rule: pictures.induct) simp_all

lemma train_batch_pictures:
  assumes "train_batch env opt rl fl epoch len (i, data) st = Some st'"
  shows "pictures (calls st') = pictures (calls st) @
           (if i mod 100 = 0 then
              [(outf opt @ ''/real_samples.png'', take 64 data, True),
               (outf opt @ ''/fake_samples_epoch_'' @ fmt_03d epoch @ ''.png'',
                netG_forward env (params st' NetG) (fixed_noise st), True)]
            else [])"
proof -
  from assms obtain l1 g1 l2 g2 l3 g3 line where
    "calls st' = calls st @
       [Zero_grad NetD, Forward NetD data, Backward l1 g1,
        Randn (length data) (nz opt),
        Forward NetG (fst (randn env (length data) (nz opt) (rng st))),
        Forward NetD (netG_forward env (params st NetG)
                        (fst (randn env (length data) (nz opt) (rng st)))),
        Backward l2 g2, Step NetD, Zero_grad NetG,
        Forward NetD (netG_forward env (params st NetG)
                        (fst (randn env (length data) (nz opt) (rng st)))),
        Backward l3 g3, Step NetG, Info line] @
       (if i mod 100 = 0 then
          [Save_image (take 64 data) (outf opt @ ''/real_samples.png'') True,
           Forward NetG (fixed_noise st),
           Save_image (netG_forward env (params st' NetG) (fixed_noise st))
             (outf opt @ ''/fake_samples_epoch_'' @ fmt_03d epoch @ ''.png'') True]
        else [])"
    by (rule train_batch_effect)
  then show ?thesis
    by (simp add: pictures_append)
qed

lemma batches_loop_picture_names:
  "batches_loop env opt epoch len bs st = Some st' \<Longrightarrow>
     map fst (pictures (calls st')) = map fst (pictures (calls st)) @
       concat (map (\<lambda>(i, data). if i mod 100 = 0
                      then [outf opt @ ''/real_samples.png'',
                            outf opt @ ''/fake_samples_epoch_'' @ fmt_03d epoch @ ''.png'']
                      else []) bs)"
proof (induction bs arbitrary: st)
  case Nil
  then show ?case by simp
next
  case (Cons b bs)
  obtain i data where b: "b = (i, data)" by (cases b)
  from Cons.prems obtain s1 where
    s1: "train_batch env opt real_label fake_label epoch len (i, data) st = Some s1" and
    rest: "batches_loop env opt epoch len bs s1 = Some st'"
    by (auto simp: b split: option.splits)
  show ?case
    using Cons.IH [OF rest] train_batch_pictures [OF s1] by (simp add: b)
qed

lemma epoch_body_picture_names:
  assumes "epoch_body env opt epoch st = Some st'"
  shows "map fst (pictures (calls st')) = map fst (pictures (calls st)) @
       concat (map (\<lambda>(i, data). if i mod 100 = 0
                      then [outf opt @ ''/real_samples.png'',
                            outf opt @ ''/fake_samples_epoch_'' @ fmt_03d epoch @ ''.png'']
                      else []) (enumerate 0 (fst (dataloader env (rng st)))))"
proof -
  from assms obtain s1 where
    loop: "batches_loop env opt epoch (length (fst (dataloader env (rng st))))
             (enumerate 0 (fst (dataloader env (rng st))))
             (called Next_epoch (st\<lparr>rng := snd (dataloader env (rng st))\<rparr>)) = Some s1" and
    st': "st' = torch_save (params s1 NetD) (outf opt @ ''/netD_epoch_'' @ fmt_d epoch @ ''.pth'')
             (torch_save (params s1 NetG) (outf opt @ ''/netG_epoch_'' @ fmt_d epoch @ ''.pth'') s1)"
    by (auto simp: epoch_body_def Let_def torch_save_def called_def
        split: prod.splits Option.bind_splits)
  show ?thesis
    using batches_loop_picture_names [OF loop]
    by (simp add: st' torch_save_def called_def pictures_append)
qed

subsection \<open>The hinge variant always completes\<close>

lemma batches_loop_sagan_total:
  "sagan opt \<Longrightarrow> \<exists>st'. batches_loop env opt epoch len bs st = Some st'"
proof (induction bs arbitrary: st)
  case Nil
  then show ?case by simp
next
  case (Cons b bs)
  obtain i data where b: "b = (i, data)" by (cases b)
  from train_batch_sagan_total [OF Cons.prems] obtain s1 where
    "train_batch env opt real_label fake_label epoch len (i, data) st = Some s1"
    by blast
  with Cons.IH [OF Cons.prems] show ?case
    by (simp add: b)
qed

lemma epoch_body_sagan_total:
  assumes "sagan opt"
  shows "\<exists>st'. epoch_body env opt epoch st = Some st'"
proof -
  obtain batches r where d: "dataloader env (rng st) = (batches, r)"
    by (cases "dataloader env (rng st)")
  from batches_loop_sagan_total [OF assms] obtain s1 where
    "batches_loop env opt epoch (length batches) (enumerate 0 batches)
       (called Next_epoch (st\<lparr>rng := r\<rparr>)) = Some s1"
    by blast
  then show ?thesis
    by (simp add: epoch_body_def d Let_def)
qed

lemma epochs_loop_sagan_total:
  "sagan opt \<Longrightarrow> \<exists>st'. epochs_loop env opt es st = Some st'"
proof (induction es arbitrary: st)
  case Nil
  then show ?case by simp
next
  case (Cons e es)
  from epoch_body_sagan_total [OF Cons.prems] obtain s1 where
    "epoch_body env opt e st = Some s1"
    by blast
  with Cons.IH [OF Cons.prems] show ?case
    by simp
qed

subsection \<open>Snapshots\<close>

text \<open>
  Claim C7 says that the two pictures of a snapshot go to files named after epoch and
  batch, so that no two snapshots of a run write the same file. The script names the
  picture of real images \<open>real_samples.png\<close> always, and the picture of generated images
  after the epoch alone. In a run of two epochs of one batch each, the four pictures
  written go to three files: \<open>real_samples.png\<close> is written twice.
\<close>

theorem snapshot_names_counterexample:
  "case main example_torch (example_opt True 2) example_state of
     None \<Rightarrow> False
   | Some st' \<Rightarrow>
       map fst (pictures (calls st')) =
         [''out/real_samples.png'', ''out/fake_samples_epoch_000.png'',
          ''out/real_samples.png'', ''out/fake_samples_epoch_001.png'']
       \<and> \<not> distinct (map fst (pictures (calls st')))"
proof -
  let ?opt = "example_opt True 2"
  let ?s0 = "(called (Randn 64 1) (example_state\<lparr>rng := Suc 0\<rparr>))
               \<lparr>fixed_noise := replicate 64 [0], moments := (\<lambda>n. ())\<rparr>"
  have sa: "sagan ?opt" by (simp add: example_opt_def)
  have two: "[0..<2] = [0, 1::nat]"
    by (simp add: upt_rec)
  have m: "main example_torch ?opt example_state = epochs_loop example_torch ?opt [0, 1] ?s0"
    by (simp add: main_def torch_randn_def example_torch_def example_opt_def example_state_def
          two leaf_def)
  from epoch_body_sagan_total [OF sa] obtain s1 where
    e0: "epoch_body example_torch ?opt 0 ?s0 = Some s1" by blast
  from epoch_body_sagan_total [OF sa] obtain s2 where
    e1: "epoch_body example_torch ?opt 1 s1 = Some s2" by blast
  have run: "main example_torch ?opt example_state = Some s2"
    using e0 e1 by (simp add: m)
  have names: "map fst (pictures (calls s2)) =
         [''out/real_samples.png'', ''out/fake_samples_epoch_000.png'',
          ''out/real_samples.png'', ''out/fake_samples_epoch_001.png'']"
    using epoch_body_picture_names [OF e0] epoch_body_picture_names [OF e1]
    by (simp add: example_torch_def example_opt_def example_state_def called_def
          enumerate_eq_zip fmt_03d_small upt_rec)
  show ?thesis
    using run names by simp
qed

text \<open>
  Claim C7, amended. When \<open>i mod 100 = 0\<close> (so also at \<open>i = 0\<close>), and only then, the loop
  body writes two pictures, both with \<open>normalize\<close> set: the first 64 images of the batch to
  \<open>real_samples.png\<close>, and the generator's output on the fixed noise to
  \<open>fake_samples_epoch_\<close> followed by the epoch, padded with zeros to three digits.
  Neither name depends on the batch index. The second name differs from the first and is different for
  different epochs.
\<close>

theorem snapshot_files:
  assumes "train_batch env opt rl fl epoch len (i, data) st = Some st'"
  shows "pictures (new_calls st st') =
           (if i mod 100 = 0 then
              [(outf opt @ ''/real_samples.png'', take 64 data, True),
               (outf opt @ ''/fake_samples_epoch_'' @ fmt_03d epoch @ ''.png'',
                netG_forward env (params st' NetG) (fixed_noise st), True)]
            else [])
       \<and> (\<forall>e. (outf opt @ ''/fake_samples_epoch_'' @ fmt_03d e @ ''.png''
                 = outf opt @ ''/fake_samples_epoch_'' @ fmt_03d epoch @ ''.png'') = (e = epoch))
       \<and> outf opt @ ''/real_samples.png''
           \<noteq> outf opt @ ''/fake_samples_epoch_'' @ fmt_03d epoch @ ''.png''"
proof -
  from assms obtain l1 g1 l2 g2 l3 g3 line where
    tr: "new_calls st st' =
       [Zero_grad NetD, Forward NetD data, Backward l1 g1,
        Randn (length data) (nz opt),
        Forward NetG (fst (randn env (length data) (nz opt) (rng st))),
        Forward NetD (netG_forward env (params st NetG)
                        (fst (randn env (length data) (nz opt) (rng st)))),
        Backward l2 g2, Step NetD, Zero_grad NetG,
        Forward NetD (netG_forward env (params st NetG)
                        (fst (randn env (length data) (nz opt) (rng st)))),
        Backward l3 g3, Step NetG, Info line] @
       (if i mod 100 = 0 then
          [Save_image (take 64 data) (outf opt @ ''/real_samples.png'') True,
           Forward NetG (fixed_noise st),
           Save_image (netG_forward env (params st' NetG) (fixed_noise st))
             (outf opt @ ''/fake_samples_epoch_'' @ fmt_03d epoch @ ''.png'') True]
        else [])"
    by (rule train_batch_effect) (simp add: new_calls_append)
  show ?thesis
    unfolding tr by (simp add: fmt_03d_inj)
qed

theorem snapshot_files_witness:
  "\<exists>st'. train_batch example_torch (example_opt True 1) real_label fake_label 0 1
            (0, [[1], [2]]) example_state = Some st'
     \<and> map fst (pictures (new_calls example_state st'))
         = [''out/real_samples.png'', ''out/fake_samples_epoch_000.png'']"
proof -
  from example_hinge_runs obtain st' where run:
    "train_batch example_torch (example_opt True 1) real_label fake_label 0 1
       (0, [[1], [2]]) example_state = Some st'" ..
  from snapshot_files [OF run] run show ?thesis
    by (simp add: example_opt_def fmt_03d_small)
qed

subsection \<open>The fixed noise\<close>

lemma generated_from_basic:
  "generated_from [] = []" "generated_from [Forward m z] = []"
  by simp_all

lemma generated_from_Forward_other:
  "\<not> is_picture c \<Longrightarrow> generated_from (Forward m z # c # ys) = generated_from (c # ys)"
  by (cases c) simp_all

lemma generated_from_Forward_picture:
  "is_picture c \<Longrightarrow> generated_from (Forward m z # c # ys)
     = (if m = NetG then z # generated_from (c # ys) else generated_from (c # ys))"
  by (cases c) simp_all

lemma generated_from_other:
  "(case x of Forward m z \<Rightarrow> False | _ \<Rightarrow> True) \<Longrightarrow> generated_from (x # cs) = generated_from cs"
  by (cases x) simp_all

lemma generated_from_append_Cons:
  assumes "\<not> is_picture c"
  shows "generated_from (xs @ c # ys) = generated_from xs @ generated_from (c # ys)"
proof (induction xs)
  case Nil
  show ?case by simp
next
  case (Cons x xs)
  show ?case
  proof (cases x)
    case (Forward m z)
    show ?thesis
    proof (cases xs)
      case Nil
      then show ?thesis
        using assms
        by (simp add: Forward generated_from_Forward_other generated_from_basic
              del: generated_from.simps)
    next
      case (Cons y zs)
      show ?thesis
      proof (cases "is_picture y")
        case True
        have "generated_from (Forward m z # y # zs @ c # ys)
            = (if m = NetG then z # generated_from (y # zs @ c # ys)
               else generated_from (y # zs @ c # ys))"
          using True generated_from_Forward_picture [of y m z "zs @ c # ys"] by simp
        moreover have "generated_from (Forward m z # y # zs)
            = (if m = NetG then z # generated_from (y # zs) else generated_from (y # zs))"
          using True by (rule generated_from_Forward_picture)
        ultimately show ?thesis
          using Cons.IH by (simp add: Forward Cons del: generated_from.simps)
      next
        case False
        have "generated_from (Forward m z # y # zs @ c # ys) = generated_from (y # zs @ c # ys)"
          using False generated_from_Forward_other [of y m z "zs @ c # ys"] by simp
        moreover have "generated_from (Forward m z # y # zs) = generated_from (y # zs)"
          using False by (rule generated_from_Forward_other)
        ultimately show ?thesis
          using Cons.IH by (simp add: Forward Cons del: generated_from.simps)
      qed
    qed
  qed (use Cons.IH in simp_all)
qed

lemma generated_from_append:
  "ys = [] \<or> \<not> is_picture (hd ys) \<Longrightarrow>
     generated_from (xs @ ys) = generated_from xs @ generated_from ys"
  by (cases ys)
    (simp_all add: generated_from_append_Cons generated_from_basic del: generated_from.simps)


lemma train_batch_generated:
  assumes "train_batch env opt rl fl epoch len (i, data) st = Some st'"
  shows "fixed_noise st' = fixed_noise st"
    and "\<exists>cs. calls st' = calls st @ Zero_grad NetD # cs
           \<and> generated_from (Zero_grad NetD # cs)
               = (if i mod 100 = 0 then [fixed_noise st] else [])"
proof -
  from assms obtain l1 g1 l2 g2 l3 g3 line where
    tr: "calls st' = calls st @
       [Zero_grad NetD, Forward NetD data, Backward l1 g1,
        Randn (length data) (nz opt),
        Forward NetG (fst (randn env (length data) (nz opt) (rng st))),
        Forward NetD (netG_forward env (params st NetG)
                        (fst (randn env (length data) (nz opt) (rng st)))),
        Backward l2 g2, Step NetD, Zero_grad NetG,
        Forward NetD (netG_forward env (params st NetG)
                        (fst (randn env (length data) (nz opt) (rng st)))),
        Backward l3 g3, Step NetG, Info line] @
       (if i mod 100 = 0 then
          [Save_image (take 64 data) (outf opt @ ''/real_samples.png'') True,
           Forward NetG (fixed_noise st),
           Save_image (netG_forward env (params st' NetG) (fixed_noise st))
             (outf opt @ ''/fake_samples_epoch_'' @ fmt_03d epoch @ ''.png'') True]
        else [])" and
    fx: "fixed_noise st' = fixed_noise st"
    by (rule train_batch_effect)
  show "fixed_noise st' = fixed_noise st" by (rule fx)
  show "\<exists>cs. calls st' = calls st @ Zero_grad NetD # cs
           \<and> generated_from (Zero_grad NetD # cs)
               = (if i mod 100 = 0 then [fixed_noise st] else [])"
    unfolding tr by simp
qed

lemma batches_loop_generated:
  "batches_loop env opt epoch len bs st = Some st' \<Longrightarrow>
     fixed_noise st' = fixed_noise st \<and>
     (\<exists>cs. calls st' = calls st @ cs \<and> (cs = [] \<or> \<not> is_picture (hd cs))
          \<and> set (generated_from cs) \<subseteq> {fixed_noise st})"
proof (induction bs arbitrary: st)
  case Nil
  then show ?case by simp
next
  case (Cons b bs)
  obtain i data where b: "b = (i, data)" by (cases b)
  from Cons.prems obtain s1 where
    s1: "train_batch env opt real_label fake_label epoch len (i, data) st = Some s1" and
    rest: "batches_loop env opt epoch len bs s1 = Some st'"
    by (auto simp: b split: option.splits)
  from train_batch_generated [OF s1] obtain c1 where
    f1: "fixed_noise s1 = fixed_noise st" and
    c1: "calls s1 = calls st @ Zero_grad NetD # c1" and
    g1: "generated_from (Zero_grad NetD # c1) = (if i mod 100 = 0 then [fixed_noise st] else [])"
    by blast
  from Cons.IH [OF rest] obtain c2 where
    f2: "fixed_noise st' = fixed_noise s1" and
    c2: "calls st' = calls s1 @ c2" and
    h2: "c2 = [] \<or> \<not> is_picture (hd c2)" and
    g2: "set (generated_from c2) \<subseteq> {fixed_noise s1}"
    by blast
  have "generated_from ((Zero_grad NetD # c1) @ c2)
      = generated_from (Zero_grad NetD # c1) @ generated_from c2"
    using h2 by (rule generated_from_append)
  then have "set (generated_from (Zero_grad NetD # c1 @ c2)) \<subseteq> {fixed_noise st}"
    using g1 g2 f1 by (auto split: if_splits)
  moreover have "calls st' = calls st @ Zero_grad NetD # c1 @ c2"
    by (simp add: c2 c1)
  ultimately show ?case
    using f1 f2 by (intro conjI exI [of _ "Zero_grad NetD # c1 @ c2"]) simp_all
qed

lemma epoch_body_generated:
  assumes "epoch_body env opt epoch st = Some st'"
  shows "fixed_noise st' = fixed_noise st"
    and "\<exists>cs. calls st' = calls st @ Next_epoch # cs
           \<and> set (generated_from (Next_epoch # cs)) \<subseteq> {fixed_noise st}"
proof -
  let ?s0 = "called Next_epoch (st\<lparr>rng := snd (dataloader env (rng st))\<rparr>)"
  from assms obtain s1 where
    loop: "batches_loop env opt epoch (length (fst (dataloader env (rng st))))
             (enumerate 0 (fst (dataloader env (rng st)))) ?s0 = Some s1" and
    st': "st' = torch_save (params s1 NetD) (outf opt @ ''/netD_epoch_'' @ fmt_d epoch @ ''.pth'')
             (torch_save (params s1 NetG) (outf opt @ ''/netG_epoch_'' @ fmt_d epoch @ ''.pth'') s1)"
    by (auto simp: epoch_body_def Let_def torch_save_def called_def
        split: prod.splits Option.bind_splits)
  from batches_loop_generated [OF loop] obtain cs where
    f: "fixed_noise s1 = fixed_noise ?s0" and
    c: "calls s1 = calls ?s0 @ cs" and
    g: "set (generated_from cs) \<subseteq> {fixed_noise ?s0}"
    by blast
  let ?tail = "[Save (params s1 NetG) (outf opt @ ''/netG_epoch_'' @ fmt_d epoch @ ''.pth''),
                Save (params s1 NetD) (outf opt @ ''/netD_epoch_'' @ fmt_d epoch @ ''.pth'')]"
  have "generated_from (cs @ ?tail) = generated_from cs @ generated_from ?tail"
    by (rule generated_from_append) simp
  then have gen: "set (generated_from (Next_epoch # cs @ ?tail)) \<subseteq> {fixed_noise st}"
    using g by (simp add: called_def)
  show "fixed_noise st' = fixed_noise st"
    using f by (simp add: st' torch_save_def called_def)
  have "calls st' = calls st @ Next_epoch # cs @ ?tail"
    using c by (simp add: st' torch_save_def called_def)
  with gen show "\<exists>cs. calls st' = calls st @ Next_epoch # cs
           \<and> set (generated_from (Next_epoch # cs)) \<subseteq> {fixed_noise st}"
    by blast
qed

lemma epochs_loop_generated:
  "epochs_loop env opt es st = Some st' \<Longrightarrow>
     fixed_noise st' = fixed_noise st \<and>
     (\<exists>cs. calls st' = calls st @ cs \<and> (cs = [] \<or> \<not> is_picture (hd cs))
          \<and> set (generated_from cs) \<subseteq> {fixed_noise st})"
proof (induction es arbitrary: st)
  case Nil
  then show ?case by simp
next
  case (Cons e es)
  from Cons.prems obtain s1 where
    s1: "epoch_body env opt e st = Some s1" and
    rest: "epochs_loop env opt es s1 = Some st'"
    by (auto split: option.splits)
  from epoch_body_generated [OF s1] obtain c1 where
    f1: "fixed_noise s1 = fixed_noise st" and
    c1: "calls s1 = calls st @ Next_epoch # c1" and
    g1: "set (generated_from (Next_epoch # c1)) \<subseteq> {fixed_noise st}"
    by blast
  from Cons.IH [OF rest] obtain c2 where
    f2: "fixed_noise st' = fixed_noise s1" and
    c2: "calls st' = calls s1 @ c2" and
    h2: "c2 = [] \<or> \<not> is_picture (hd c2)" and
    g2: "set (generated_from c2) \<subseteq> {fixed_noise s1}"
    by blast
  have "generated_from ((Next_epoch # c1) @ c2)
      = generated_from (Next_epoch # c1) @ generated_from c2"
    using h2 by (rule generated_from_append)
  then have "set (generated_from (Next_epoch # c1 @ c2)) \<subseteq> {fixed_noise st}"
    using g1 g2 f1 by auto
  moreover have "calls st' = calls st @ Next_epoch # c1 @ c2"
    by (simp add: c2 c1)
  ultimately show ?case
    using f1 f2 by (intro conjI exI [of _ "Next_epoch # c1 @ c2"]) simp_all
qed

lemma main_sagan_total:
  "sagan opt \<Longrightarrow> \<exists>st'. main env opt st0 = Some st'"
  by (simp add: main_def Let_def split_def epochs_loop_sagan_total)

text \<open>
  Claim C9. The first call of a run draws 64 latent vectors, and that draw is the fixed
  noise of every later state: no loop body and no epoch changes it. Every generator
  output that a run saves as a picture was generated from that same draw; a loop body
  saves one such picture when \<open>i mod 100 = 0\<close>, from the fixed noise of the state it
  starts in, and none otherwise.
\<close>

theorem fixed_noise_drawn_once:
  assumes "main env opt st0 = Some st'"
  shows "let fixed = fst (randn env 64 (nz opt) (rng st0)) in
       fixed_noise st' = fixed
     \<and> hd (new_calls st0 st') = Randn 64 (nz opt)
     \<and> (\<forall>z \<in> set (generated_from (new_calls st0 st')). z = fixed)
     \<and> (\<forall>epoch s s'. epoch_body env opt epoch s = Some s' \<longrightarrow> fixed_noise s' = fixed_noise s)
     \<and> (\<forall>rl fl epoch len i data s s'.
           train_batch env opt rl fl epoch len (i, data) s = Some s' \<longrightarrow>
             fixed_noise s' = fixed_noise s \<and>
             generated_from (new_calls s s') = (if i mod 100 = 0 then [fixed_noise s] else []))"
proof -
  let ?fixed = "fst (randn env 64 (nz opt) (rng st0))"
  let ?s1 = "(called (Randn 64 (nz opt)) (st0\<lparr>rng := snd (randn env 64 (nz opt) (rng st0))\<rparr>))
               \<lparr>fixed_noise := ?fixed, moments := (\<lambda>n. adam_init env)\<rparr>"
  from assms have loop: "epochs_loop env opt [0..<nat (niter opt)] ?s1 = Some st'"
    by (simp add: main_def torch_randn_def Let_def split_def)
  from epochs_loop_generated [OF loop] obtain cs where
    f: "fixed_noise st' = ?fixed" and
    c: "calls st' = calls st0 @ Randn 64 (nz opt) # cs" and
    g: "set (generated_from cs) \<subseteq> {?fixed}"
    by (auto simp: called_def)
  have nc: "new_calls st0 st' = Randn 64 (nz opt) # cs"
    using c by (simp add: new_calls_append)
  have batch: "fixed_noise s' = fixed_noise s \<and>
      generated_from (new_calls s s') = (if i mod 100 = 0 then [fixed_noise s] else [])"
    if "train_batch env opt rl fl epoch len (i, data) s = Some s'"
    for rl fl epoch len i data s s'
    using train_batch_generated [OF that] by (auto simp: new_calls_append)
  have gen: "\<forall>z \<in> set (generated_from (Randn 64 (nz opt) # cs)). z = ?fixed"
    using g by auto
  have epoch: "\<forall>epoch s s'. epoch_body env opt epoch s = Some s' \<longrightarrow> fixed_noise s' = fixed_noise s"
    using epoch_body_generated(1) by blast
  show ?thesis
    unfolding Let_def nc using f gen epoch batch by (intro conjI) (simp, simp, assumption+, blast)
qed

theorem fixed_noise_drawn_once_witness:
  "case main example_torch (example_opt True 2) example_state of
     None \<Rightarrow> False
   | Some st' \<Rightarrow> fixed_noise st' = replicate 64 [0]
       \<and> hd (new_calls example_state st') = Randn 64 1
       \<and> (case train_batch example_torch (example_opt True 2) real_label fake_label 2 1
                  (0, [[1], [2]]) st' of
             None \<Rightarrow> False
           | Some s' \<Rightarrow> generated_from (new_calls st' s') = [replicate 64 [0]])"
proof -
  have sa: "sagan (example_opt True 2)" by (simp add: example_opt_def)
  from main_sagan_total [OF sa] obtain st' where
    run: "main example_torch (example_opt True 2) example_state = Some st'"
    by blast
  from train_batch_sagan_total [OF sa] obtain s' where
    more: "train_batch example_torch (example_opt True 2) real_label fake_label 2 1
             (0, [[1], [2]]) st' = Some s'"
    by blast
  from fixed_noise_drawn_once [OF run] have
    a: "fixed_noise st' = fst (randn example_torch 64 (nz (example_opt True 2)) (rng example_state))"
    and b: "hd (new_calls example_state st') = Randn 64 (nz (example_opt True 2))"
    and c: "\<And>rl fl epoch len i data s s'.
           train_batch example_torch (example_opt True 2) rl fl epoch len (i, data) s = Some s' \<Longrightarrow>
             generated_from (new_calls s s') = (if i mod 100 = 0 then [fixed_noise s] else [])"
    by (simp_all add: Let_def)
  have a': "fixed_noise st' = replicate 64 [0]"
    using a by (simp add: example_torch_def example_opt_def example_state_def)
  have b': "hd (new_calls example_state st') = Randn 64 1"
    using b by (simp add: example_opt_def)
  have c': "generated_from (new_calls st' s') = [replicate 64 [0]]"
    using c [OF more] a' by simp
  show ?thesis
    using run more a' b' c' by simp
qed

end
